theory Spec2Isabelle
  imports Main "HOL-Library.Multiset"
begin

section \<open>Python strings\<close>

text \<open>
  A Python \<open>str\<close> is a sequence of Unicode code points, so a string is a list of
  natural numbers (one per code point). ASCII literals of the source are written
  through \<open>U\<close>.
\<close>

type_synonym ustring = "nat list"

definition U :: "string \<Rightarrow> ustring" where
  "U s = map of_char s"

text \<open>
  \<open>str.strip()\<close>, \<open>str.split()\<close> and \<open>get_text(strip=True)\<close> all use CPython's
  whitespace test on code points: U+0009..U+000D, U+001C..U+0020, U+0085, U+00A0,
  U+1680, U+2000..U+200A, U+2028, U+2029, U+202F, U+205F, U+3000.
\<close>

definition isspace :: "nat \<Rightarrow> bool" where
  "isspace c =
     ((9 \<le> c \<and> c \<le> 13) \<or> (28 \<le> c \<and> c \<le> 32) \<or> c = 133 \<or> c = 160 \<or> c = 5760
      \<or> (8192 \<le> c \<and> c \<le> 8202) \<or> c = 8232 \<or> c = 8233 \<or> c = 8239 \<or> c = 8287
      \<or> c = 12288)"

text \<open>\<open>s.strip()\<close>: whitespace removed at both ends.\<close>

definition strip :: "ustring \<Rightarrow> ustring" where
  "strip s = rev (dropWhile isspace (rev (dropWhile isspace s)))"

text \<open>
  \<open>s.split()\<close> without arguments: runs of whitespace separate the tokens and no empty
  token is produced. \<open>split_from cur rest\<close> scans \<open>rest\<close> with the token read so far
  in \<open>cur\<close>.
\<close>

fun split_from :: "ustring \<Rightarrow> ustring \<Rightarrow> ustring list" where
  "split_from cur [] = (if cur = [] then [] else [cur])"
| "split_from cur (c # cs) =
     (if isspace c
      then (if cur = [] then split_from [] cs else cur # split_from [] cs)
      else split_from (cur @ [c]) cs)"

definition py_split :: "ustring \<Rightarrow> ustring list" where
  "py_split s = split_from [] s"

text \<open>\<open>sep.join(xs)\<close>.\<close>

fun join :: "ustring \<Rightarrow> ustring list \<Rightarrow> ustring" where
  "join sep [] = []"
| "join sep [x] = x"
| "join sep (x # y # ys) = x @ sep @ join sep (y # ys)"

text \<open>\<open>s.startswith(p)\<close> and \<open>p in s\<close> (substring test).\<close>

fun startswith :: "ustring \<Rightarrow> ustring \<Rightarrow> bool" where
  "startswith s [] = True"
| "startswith [] (p # ps) = False"
| "startswith (c # cs) (p # ps) = (c = p \<and> startswith cs ps)"

fun contains :: "ustring \<Rightarrow> ustring \<Rightarrow> bool" where
  "contains p [] = (p = [])"
| "contains p (c # cs) = (startswith (c # cs) p \<or> contains p cs)"

section \<open>Name splitter\<close>

text \<open>The dictionary returned by \<open>split_name\<close> always has the same four keys.\<close>

record name_parts =
  apellido_paterno :: ustring
  apellido_materno :: ustring
  primer_nombre :: ustring
  segundo_nombre :: ustring

definition split_name :: "ustring \<Rightarrow> name_parts" where
  "split_name full_name =
     (let tokens = py_split (strip full_name);
          n = length tokens
      in if n \<ge> 4 then
           \<lparr>apellido_paterno = tokens ! 0, apellido_materno = tokens ! 1,
            primer_nombre = tokens ! 2, segundo_nombre = join (U '' '') (drop 3 tokens)\<rparr>
         else if n = 3 then
           \<lparr>apellido_paterno = tokens ! 0, apellido_materno = tokens ! 1,
            primer_nombre = tokens ! 2, segundo_nombre = []\<rparr>
         else if n = 2 then
           \<lparr>apellido_paterno = tokens ! 0, apellido_materno = [],
            primer_nombre = tokens ! 1, segundo_nombre = []\<rparr>
         else if n = 1 then
           \<lparr>apellido_paterno = tokens ! 0, apellido_materno = [],
            primer_nombre = [], segundo_nombre = []\<rparr>
         else
           \<lparr>apellido_paterno = [], apellido_materno = [],
            primer_nombre = [], segundo_nombre = []\<rparr>)"

section \<open>File names\<close>

text \<open>
  The character class of the regular expression in \<open>sanitize_filename\<close>:
  \<open><\<close> (60), \<open>>\<close> (62), \<open>:\<close> (58), the double quote (34), \<open>/\<close> (47), the backslash
  (92), \<open>|\<close> (124), \<open>?\<close> (63) and \<open>*\<close> (42). \<open>re.sub\<close> with a one-character class
  replaces every matching character by the replacement text.
\<close>

definition invalid_chars :: "nat list" where
  "invalid_chars = [60, 62, 58, 34, 47, 92, 124, 63, 42]"

fun re_sub_invalid :: "ustring \<Rightarrow> ustring \<Rightarrow> ustring" where
  "re_sub_invalid repl [] = []"
| "re_sub_invalid repl (c # cs) =
     (if c \<in> set invalid_chars then repl @ re_sub_invalid repl cs
      else c # re_sub_invalid repl cs)"

definition sanitize_filename :: "ustring \<Rightarrow> ustring" where
  "sanitize_filename name =
     (let sanitized = re_sub_invalid (U ''_'') name
      in if strip sanitized = [] then U ''unknown'' else strip sanitized)"

section \<open>Documents\<close>

text \<open>
  \<open>BeautifulSoup(html, "html.parser")\<close> is a library call: the parser is a parameter
  \<open>soup\<close> of the functions that call it, and what it returns is a tree of tags and
  text nodes. A tag has a name, attributes and children; the document itself is the
  root tag. The tree operations below are the ones the source calls on it.
\<close>

datatype node =
    Text ustring
  | Tag ustring "(ustring \<times> ustring) list" "node list"

text \<open>All nodes below a node, in document order (a tag before its children).\<close>

fun descendants :: "node \<Rightarrow> node list" where
  "descendants (Text s) = []"
| "descendants (Tag n a cs) = concat (map (\<lambda>c. c # descendants c) cs)"

text \<open>\<open>nd.find_all(names)\<close>: every tag below \<open>nd\<close> whose name is one of \<open>names\<close>.\<close>

definition find_all :: "ustring list \<Rightarrow> node \<Rightarrow> node list" where
  "find_all names nd =
     filter (\<lambda>d. case d of Text s \<Rightarrow> False | Tag n a cs \<Rightarrow> n \<in> set names) (descendants nd)"

text \<open>\<open>nd.find(name)\<close>: the first such tag, or \<open>None\<close>.\<close>

definition find_first :: "ustring \<Rightarrow> node \<Rightarrow> node option" where
  "find_first name nd = (case find_all [name] nd of [] \<Rightarrow> None | x # xs \<Rightarrow> Some x)"

text \<open>\<open>nd.find_all(name, attr=True)\<close>: the tags of that name that carry the attribute.\<close>

definition find_all_with_attr :: "ustring \<Rightarrow> ustring \<Rightarrow> node \<Rightarrow> node list" where
  "find_all_with_attr name attr nd =
     filter (\<lambda>d. case d of Text s \<Rightarrow> False
                 | Tag n a cs \<Rightarrow> n = name \<and> map_of a attr \<noteq> None) (descendants nd)"

text \<open>\<open>nd.get(key, default)\<close>.\<close>

fun attr_get :: "node \<Rightarrow> ustring \<Rightarrow> ustring \<Rightarrow> ustring" where
  "attr_get (Text s) key dflt = dflt"
| "attr_get (Tag n a cs) key dflt = (case map_of a key of None \<Rightarrow> dflt | Some v \<Rightarrow> v)"

text \<open>
  \<open>nd.get_text(strip=True)\<close>: every text node below \<open>nd\<close> is stripped, the empty
  ones are left out, and the rest are concatenated without a separator.
\<close>

fun strings :: "node \<Rightarrow> ustring list" where
  "strings (Text s) = [s]"
| "strings (Tag n a cs) = concat (map strings cs)"

definition get_text_strip :: "node \<Rightarrow> ustring" where
  "get_text_strip nd = concat (filter (\<lambda>s. s \<noteq> []) (map strip (strings nd)))"

section \<open>Constants\<close>

definition BASE_URL :: ustring where
  "BASE_URL = U ''https://escolar1.rhon.itam.mx/titulacion''"

definition PROGRAMAS_URL :: ustring where
  "PROGRAMAS_URL = BASE_URL @ U ''/programas.asp''"

definition OUTPUT_DIR :: ustring where
  "OUTPUT_DIR = U ''output''"

definition RETRIES :: nat where
  "RETRIES = 2"

definition RETRY_DELAY :: nat where
  "RETRY_DELAY = 2"

section \<open>Index parser\<close>

text \<open>
  The body of the inner loop of \<open>parse_programas\<close> for one anchor: nothing when the
  anchor is skipped, otherwise the pair appended to the results.
\<close>

definition anchor_link :: "node \<Rightarrow> (ustring \<times> ustring) list" where
  "anchor_link a =
     (let href = strip (attr_get a (U ''href'') [])
      in if \<not> contains (U ''titulados.asp'') href \<or> \<not> contains (U ''prog='') href then []
         else let name = get_text_strip a
              in if name = [] then []
                 else let url = (if startswith href (U ''http'') then href
                                 else if startswith href (U ''/'')
                                   then U ''https://escolar1.rhon.itam.mx'' @ href
                                 else BASE_URL @ U ''/'' @ href)
                      in [(name, url)])"

definition table_links :: "node \<Rightarrow> (ustring \<times> ustring) list" where
  "table_links table = concat (map anchor_link (find_all_with_attr (U ''a'') (U ''href'') table))"

text \<open>
  The section name of a table: its first row must have exactly one header cell, whose
  stripped text is put in upper case; \<open>None\<close> when the table has no row or the row
  has another number of cells (the table is then skipped). \<open>upper\<close> is \<open>str.upper\<close>.
\<close>

definition section_name_of :: "(ustring \<Rightarrow> ustring) \<Rightarrow> node \<Rightarrow> ustring option" where
  "section_name_of upper table =
     (case find_first (U ''tr'') table of
        None \<Rightarrow> None
      | Some first_row \<Rightarrow>
          (let header_cells = find_all [U ''th'', U ''td''] first_row
           in if length header_cells \<noteq> 1 then None
              else Some (upper (get_text_strip (header_cells ! 0)))))"

text \<open>
  The loop over the tables: \<open>continue\<close> goes on with the remaining tables, \<open>break\<close>
  ends the loop with what has been collected.
\<close>

fun programas_loop :: "(ustring \<Rightarrow> ustring) \<Rightarrow> node list \<Rightarrow> (ustring \<times> ustring) list" where
  "programas_loop upper [] = []"
| "programas_loop upper (table # rest) =
     (case section_name_of upper table of
        None \<Rightarrow> programas_loop upper rest
      | Some section_name \<Rightarrow>
          if section_name = U ''DOCTORADO'' then []
          else if section_name \<noteq> U ''LICENCIATURA'' then programas_loop upper rest
          else table_links table @ programas_loop upper rest)"

definition parse_programas ::
  "(ustring \<Rightarrow> node) \<Rightarrow> (ustring \<Rightarrow> ustring) \<Rightarrow> ustring \<Rightarrow> (ustring \<times> ustring) list" where
  "parse_programas soup upper html = programas_loop upper (find_all [U ''table''] (soup html))"

section \<open>Table parser\<close>

text \<open>The header cell texts of a table, and the header string they are joined into.\<close>

definition header_cells_of :: "node \<Rightarrow> ustring list" where
  "header_cells_of table =
     (case find_first (U ''tr'') table of
        None \<Rightarrow> []
      | Some thead \<Rightarrow> map get_text_strip (find_all [U ''th'', U ''td''] thead))"

definition header_text_of :: "node \<Rightarrow> ustring" where
  "header_text_of table = join (U '' '') (header_cells_of table)"

text \<open>The body of the loop over the rows of the matching table, for one row.\<close>

definition row_data :: "node \<Rightarrow> (ustring \<times> ustring) list" where
  "row_data tr =
     (let cells = find_all [U ''td'', U ''th''] tr
      in if length cells \<ge> 2
         then (let nombre = get_text_strip (cells ! 0);
                   anio = get_text_strip (cells ! 1)
               in if nombre \<noteq> [] \<or> anio \<noteq> [] then [(nombre, anio)] else [])
         else [])"

definition table_rows :: "node \<Rightarrow> (ustring \<times> ustring) list" where
  "table_rows table = concat (map row_data (drop 1 (find_all [U ''tr''] table)))"

fun titulados_loop :: "node list \<Rightarrow> (ustring \<times> ustring) list" where
  "titulados_loop [] = []"
| "titulados_loop (table # rest) =
     (let header_cells = header_cells_of table
      in if header_cells = [] then titulados_loop rest
         else let header_text = join (U '' '') header_cells;
                  has_nombre_alumno =
                    (contains (U ''Nombre'') header_text \<and> contains (U ''alumno'') header_text);
                  has_anio_titulacion = contains (U ''titulaci'') header_text
              in if \<not> (has_nombre_alumno \<and> has_anio_titulacion) then titulados_loop rest
                 else table_rows table)"

definition parse_titulados_table :: "(ustring \<Rightarrow> node) \<Rightarrow> ustring \<Rightarrow> (ustring \<times> ustring) list" where
  "parse_titulados_table soup html = titulados_loop (find_all [U ''table''] (soup html))"

section \<open>The world: network, file system, output\<close>

text \<open>
  Exceptions are values. A \<open>RuntimeError\<close> carries its message and its cause (the
  exception it was raised \<open>from\<close>); \<open>str_exn\<close> is \<open>str(e)\<close>.
\<close>

datatype py_exn =
    RequestException ustring
  | RuntimeError ustring py_exn
  | OSError ustring

fun str_exn :: "py_exn \<Rightarrow> ustring" where
  "str_exn (RequestException m) = m"
| "str_exn (RuntimeError m cause) = m"
| "str_exn (OSError m) = m"

text \<open>
  What the \<open>requests\<close> library gives for one \<open>requests.get(url, timeout=30)\<close> followed
  by \<open>raise_for_status()\<close>: a response, or a \<open>RequestException\<close> with its message.
  Of a response the source reads the declared encoding, the detected encoding and the
  text of the body under the encoding finally set.
\<close>

record response =
  encoding :: "ustring option"
  apparent_encoding :: "ustring option"
  text_as :: "ustring \<Rightarrow> ustring"

datatype http_result =
    Responded response
  | Failed ustring

text \<open>The lines \<open>main\<close> prints, with the values formatted into them.\<close>

datatype message =
    FetchingProgramas
  | NoLicenciaturaLinks
  | FoundPrograms nat
  | OkLine ustring nat
  | FailLine ustring ustring
  | DoneLine nat nat nat
  | SomeFailed

text \<open>
  Everything the program does to its environment is recorded in a trace: the calls of
  \<open>get_latest_html\<close> (address and forced encoding), each HTTP request, each sleep,
  the creation of the output directory, each file written (path and rows, header
  first) and each line printed.
\<close>

datatype event =
    Fetch ustring "ustring option"
  | Get ustring
  | Sleep nat
  | Mkdir ustring
  | Write ustring "ustring list list"
  | Print message

text \<open>
  The environment answers the \<open>k\<close>-th request to an address (\<open>network\<close>) and says
  which paths cannot be created or opened for writing, with the message of the
  \<open>OSError\<close> (\<open>fs_error\<close>).
\<close>

record world =
  network :: "ustring \<Rightarrow> nat \<Rightarrow> http_result"
  fs_error :: "ustring \<Rightarrow> ustring option"
  trace :: "event list"

definition emit :: "event \<Rightarrow> world \<Rightarrow> world" where
  "emit e w = w\<lparr>trace := trace w @ [e]\<rparr>"

definition requests_made :: "ustring \<Rightarrow> world \<Rightarrow> nat" where
  "requests_made url w = length (filter (\<lambda>e. e = Get url) (trace w))"

section \<open>Fetcher\<close>

text \<open>
  The encoding set on a response before its text is read: the forced one when it is
  given (and not the empty string), else the declared one, else the detected one, else
  \<open>utf-8\<close>.
\<close>

definition response_text :: "response \<Rightarrow> ustring option \<Rightarrow> ustring" where
  "response_text resp force_encoding =
     (if force_encoding \<noteq> None \<and> force_encoding \<noteq> Some []
      then text_as resp (the force_encoding)
      else case encoding resp of
             None \<Rightarrow>
               (if apparent_encoding resp \<noteq> None \<and> apparent_encoding resp \<noteq> Some []
                then text_as resp (the (apparent_encoding resp))
                else text_as resp (U ''utf-8''))
           | Some declared \<Rightarrow> text_as resp declared)"

text \<open>
  The loop \<open>for attempt in range(RETRIES + 1)\<close>, over the list of attempt numbers
  still to come. After the loop the source returns the empty string.
\<close>

fun attempt_loop ::
  "ustring \<Rightarrow> ustring option \<Rightarrow> nat list \<Rightarrow> world \<Rightarrow> (py_exn + ustring) \<times> world" where
  "attempt_loop url force_encoding [] w = (Inr [], w)"
| "attempt_loop url force_encoding (attempt # rest) w =
     (case network w url (requests_made url w) of
        Responded resp \<Rightarrow> (Inr (response_text resp force_encoding), emit (Get url) w)
      | Failed e \<Rightarrow>
          if attempt < RETRIES
          then attempt_loop url force_encoding rest (emit (Sleep RETRY_DELAY) (emit (Get url) w))
          else (Inl (RuntimeError (U ''Failed to fetch '' @ url @ U '': '' @ e)
                       (RequestException e)),
                emit (Get url) w))"

definition get_latest_html ::
  "ustring \<Rightarrow> ustring option \<Rightarrow> world \<Rightarrow> (py_exn + ustring) \<times> world" where
  "get_latest_html url force_encoding w =
     attempt_loop url force_encoding [0..<RETRIES + 1] (emit (Fetch url force_encoding) w)"

section \<open>Category worker\<close>

definition fieldnames :: "ustring list" where
  "fieldnames =
     [U ''apellido_paterno'', U ''apellido_materno'', U ''primer_nombre'',
      U ''segundo_nombre'', U ''anio_titulacion'', U ''nombre_completo'']"

text \<open>The row written for one \<open>(nombre_str, anio_str)\<close>, in the order of \<open>fieldnames\<close>.\<close>

definition csv_row :: "ustring \<times> ustring \<Rightarrow> ustring list" where
  "csv_row r =
     (let parts = split_name (fst r)
      in [apellido_paterno parts, apellido_materno parts, primer_nombre parts,
          segundo_nombre parts, snd r, fst r])"

definition scrape_career ::
  "(ustring \<Rightarrow> node) \<Rightarrow> ustring \<Rightarrow> ustring \<Rightarrow> ustring \<Rightarrow> world \<Rightarrow> (py_exn + nat) \<times> world" where
  "scrape_career soup career_name url output_dir w =
     (case get_latest_html url None w of
        (Inl e, w1) \<Rightarrow> (Inl e, w1)
      | (Inr html, w1) \<Rightarrow>
          (let rows = parse_titulados_table soup html
           in case (if rows = [] \<and> contains (U ''titulados.asp'') url
                    then (case get_latest_html url (Some (U ''iso-8859-1'')) w1 of
                            (Inl e, w2) \<Rightarrow> (Inl e, w2)
                          | (Inr html2, w2) \<Rightarrow> (Inr (parse_titulados_table soup html2), w2))
                    else (Inr rows, w1)) of
                (Inl e, w2) \<Rightarrow> (Inl e, w2)
              | (Inr rows2, w2) \<Rightarrow>
                  (let safe_name = sanitize_filename career_name;
                       out_path = output_dir @ U ''/'' @ safe_name @ U ''.csv''
                   in case fs_error w2 out_path of
                        Some m \<Rightarrow> (Inl (OSError m), w2)
                      | None \<Rightarrow>
                          (Inr (length rows2),
                           emit (Write out_path (fieldnames # map csv_row rows2)) w2))))"

section \<open>Harvest coordinator\<close>

text \<open>
  The loop over \<open>as_completed(futures)\<close>. The workers run in a thread pool; the model
  runs them one after the other in the order in which they complete, each followed by
  the handling of its outcome. A result is \<open>(name, count, error)\<close> with \<open>error\<close> the
  text \<open>str(e)\<close> of the exception, or \<open>None\<close>.
\<close>

fun collect ::
  "(ustring \<Rightarrow> node) \<Rightarrow> ustring \<Rightarrow> (ustring \<times> ustring) list \<Rightarrow> world
     \<Rightarrow> (ustring \<times> nat \<times> ustring option) list \<times> world" where
  "collect soup output_path [] w = ([], w)"
| "collect soup output_path (career # futures) w =
     (case scrape_career soup (fst career) (snd career) output_path w of
        (Inr count', w1) \<Rightarrow>
          (case collect soup output_path futures (emit (Print (OkLine (fst career) count')) w1) of
             (results, w2) \<Rightarrow> ((fst career, count', None) # results, w2))
      | (Inl e, w1) \<Rightarrow>
          (case collect soup output_path futures
                  (emit (Print (FailLine (fst career) (str_exn e))) w1) of
             (results, w2) \<Rightarrow> ((fst career, 0, Some (str_exn e)) # results, w2)))"

definition succeeded :: "(ustring \<times> nat \<times> ustring option) \<Rightarrow> bool" where
  "succeeded r = (snd (snd r) = None)"

text \<open>
  \<open>completion\<close> gives the order in which the submitted careers complete. \<open>main\<close>
  returns nothing; an exception that leaves it is the \<open>Inl\<close> result.
\<close>

definition main ::
  "(ustring \<Rightarrow> node) \<Rightarrow> (ustring \<Rightarrow> ustring)
     \<Rightarrow> ((ustring \<times> ustring) list \<Rightarrow> (ustring \<times> ustring) list) \<Rightarrow> world
     \<Rightarrow> (py_exn + unit) \<times> world" where
  "main soup upper completion w =
     (case fs_error w OUTPUT_DIR of
        Some m \<Rightarrow> (Inl (OSError m), w)
      | None \<Rightarrow>
          (case get_latest_html PROGRAMAS_URL None
                  (emit (Print FetchingProgramas) (emit (Mkdir OUTPUT_DIR) w)) of
             (Inl e, w1) \<Rightarrow> (Inl e, w1)
           | (Inr html, w1) \<Rightarrow>
               (let careers = parse_programas soup upper html
                in if careers = [] then (Inr (), emit (Print NoLicenciaturaLinks) w1)
                   else
                     (case collect soup OUTPUT_DIR (completion careers)
                             (emit (Print (FoundPrograms (length careers))) w1) of
                        (results, w3) \<Rightarrow>
                          (let ok = length (filter succeeded results);
                               total_rows = sum_list (map (\<lambda>r. fst (snd r)) (filter succeeded results));
                               w4 = emit (Print (DoneLine ok (length careers) total_rows)) w3
                           in if list_ex (\<lambda>r. snd (snd r) \<noteq> None \<and> snd (snd r) \<noteq> Some []) results
                              then (Inr (), emit (Print SomeFailed) w4)
                              else (Inr (), w4))))))"

section \<open>Example documents\<close>

text \<open>
  \<open>str.upper\<close> on ASCII text, for the examples (all their header cells are ASCII).
\<close>

definition ascii_upper :: "ustring \<Rightarrow> ustring" where
  "ascii_upper s = map (\<lambda>c. if 97 \<le> c \<and> c \<le> 122 then c - 32 else c) s"

text \<open>
  An index page with four tables, one after the other: LICENCIATURA (four anchors: a
  relative, a root-relative and an absolute address, and one that is no listing link),
  MAESTRIA, DOCTORADO and a second LICENCIATURA table.
  \<^verbatim>\<open><table><tr><td>Licenciatura</td></tr><tr><td>
    <a href=titulados.asp?prog=1>ACTUARIA</a>
    <a href=/titulacion/titulados.asp?prog=2>DERECHO</a>
    <a href=http://escolar1.rhon.itam.mx/titulacion/titulados.asp?prog=3>ECONOMIA</a>
    <a href=programas.asp>INICIO</a></td></tr></table>
  <table><tr><td>MAESTRIA</td></tr><tr><td><a href=titulados.asp?prog=50>FINANZAS</a></td></tr></table>
  <table><tr><td>DOCTORADO</td></tr><tr><td><a href=titulados.asp?prog=90>ECONOMIA</a></td></tr></table>
  <table><tr><td>LICENCIATURA</td></tr><tr><td><a href=titulados.asp?prog=4>MATEMATICAS</a></td></tr></table>\<close>
\<close>

definition anchor :: "string \<Rightarrow> string \<Rightarrow> node" where
  "anchor href label = Tag (U ''a'') [(U ''href'', U href)] [Text (U label)]"

definition section_table :: "string \<Rightarrow> node list \<Rightarrow> node" where
  "section_table title anchors =
     Tag (U ''table'') []
       [Tag (U ''tr'') [] [Tag (U ''td'') [] [Text (U title)]],
        Tag (U ''tr'') [] [Tag (U ''td'') [] anchors]]"

definition lic_table :: node where
  "lic_table = section_table ''Licenciatura''
     [anchor ''titulados.asp?prog=1'' ''ACTUARIA'',
      anchor ''/titulacion/titulados.asp?prog=2'' ''DERECHO'',
      anchor ''http://escolar1.rhon.itam.mx/titulacion/titulados.asp?prog=3'' ''ECONOMIA'',
      anchor ''programas.asp'' ''INICIO'']"

definition mae_table :: node where
  "mae_table = section_table ''MAESTRIA'' [anchor ''titulados.asp?prog=50'' ''FINANZAS'']"

definition doc_table :: node where
  "doc_table = section_table ''DOCTORADO'' [anchor ''titulados.asp?prog=90'' ''ECONOMIA'']"

definition lic2_table :: node where
  "lic2_table = section_table ''LICENCIATURA'' [anchor ''titulados.asp?prog=4'' ''MATEMATICAS'']"

definition index_doc :: node where
  "index_doc = Tag (U ''[document]'') [] [lic_table, mae_table, doc_table, lic2_table]"

text \<open>
  An index page whose DOCTORADO table is nested in the second row of the LICENCIATURA
  table:
  \<^verbatim>\<open><table><tr><td>LICENCIATURA</td></tr><tr><td>
    <table><tr><td>DOCTORADO</td></tr><tr><td><a href=titulados.asp?prog=90>ECONOMIA</a></td></tr></table>
  </td></tr></table>\<close>
\<close>

definition nested_outer :: node where
  "nested_outer = section_table ''LICENCIATURA'' [doc_table]"

definition nested_doc :: node where
  "nested_doc = Tag (U ''[document]'') [] [nested_outer]"

text \<open>
  An index page whose only anchor has a protocol-relative address:
  \<^verbatim>\<open><table><tr><td>LICENCIATURA</td></tr><tr><td>
    <a href=//escolar1.rhon.itam.mx/titulacion/titulados.asp?prog=1>ACTUARIA</a></td></tr></table>\<close>
\<close>

definition protocol_relative_doc :: node where
  "protocol_relative_doc = Tag (U ''[document]'') []
     [section_table ''LICENCIATURA''
        [anchor ''//escolar1.rhon.itam.mx/titulacion/titulados.asp?prog=1'' ''ACTUARIA'']]"

text \<open>
  A listing page with three tables. The first has the name column but no year column;
  the second and the third have both. In the second, one row has two empty cells and
  one row has a single cell.
\<close>

definition data_row :: "string list \<Rightarrow> node" where
  "data_row cells = Tag (U ''tr'') [] (map (\<lambda>c. Tag (U ''td'') [] [Text (U c)]) cells)"

definition no_year_table :: node where
  "no_year_table = Tag (U ''table'') []
     [data_row [''Nombre del alumno'', ''Matricula''], data_row [''PEREZ RUIZ ANA'', ''1'']]"

definition first_data_table :: node where
  "first_data_table = Tag (U ''table'') []
     [data_row [''Nombre del alumno'', ''Fecha de titulacion''],
      data_row [''GARCIA LOPEZ MARIA JOSE'', ''2020''],
      data_row ['''', ''''],
      data_row [''SOLO''],
      data_row [''DIAZ JUAN'', '''']]"

definition second_data_table :: node where
  "second_data_table = Tag (U ''table'') []
     [data_row [''Nombre del alumno'', ''Fecha de titulacion''],
      data_row [''SOTO MORA LUIS'', ''1999'']]"

definition listing_doc :: node where
  "listing_doc = Tag (U ''[document]'') [] [no_year_table, first_data_table, second_data_table]"

definition empty_doc :: node where
  "empty_doc = Tag (U ''[document]'') [] []"

text \<open>
  The parser on the example pages: each page is named by a short text that stands for
  its markup.
\<close>

definition example_soup :: "ustring \<Rightarrow> node" where
  "example_soup html =
     (if html = U ''index'' then index_doc
      else if html = U ''nested'' then nested_doc
      else if html = U ''protocol-relative'' then protocol_relative_doc
      else if html = U ''listing'' then listing_doc
      else empty_doc)"


section \<open>Reading the trace\<close>

text \<open>
  What a run adds to the trace, the calls of \<open>get_latest_html\<close> among some events, and
  the paths of the files written among them.
\<close>

definition new_events :: "world \<Rightarrow> world \<Rightarrow> event list" where
  "new_events w w' = drop (length (trace w)) (trace w')"

fun fetch_calls :: "event list \<Rightarrow> event list" where
  "fetch_calls [] = []"
| "fetch_calls (Fetch url enc # evs) = Fetch url enc # fetch_calls evs"
| "fetch_calls (e # evs) = fetch_calls evs"

fun written :: "event list \<Rightarrow> ustring list" where
  "written [] = []"
| "written (Write path rows # evs) = path # written evs"
| "written (e # evs) = written evs"

section \<open>An example environment\<close>

text \<open>
  The index page answers at the second request. Programme 1 is served without a
  declared encoding and reads as a page without tables unless the legacy encoding is
  forced; programme 2 never answers; programme 3 is a page without tables under every
  encoding; programme 4 is the listing page. Every path can be written.
\<close>

definition page :: "string \<Rightarrow> response" where
  "page name = \<lparr>encoding = Some (U ''utf-8''), apparent_encoding = None, text_as = (\<lambda>enc. U name)\<rparr>"

definition legacy_page :: response where
  "legacy_page = \<lparr>encoding = None, apparent_encoding = None,
     text_as = (\<lambda>enc. if enc = U ''iso-8859-1'' then U ''listing'' else U ''garbled'')\<rparr>"

definition example_network :: "ustring \<Rightarrow> nat \<Rightarrow> http_result" where
  "example_network url k =
     (if url = U ''https://escolar1.rhon.itam.mx/titulacion/programas.asp''
        then (if k = 0 then Failed (U ''connection reset'') else Responded (page ''index''))
      else if url = U ''https://escolar1.rhon.itam.mx/titulacion/titulados.asp?prog=1''
        then Responded legacy_page
      else if url = U ''https://escolar1.rhon.itam.mx/titulacion/titulados.asp?prog=2''
        then Failed (U ''timeout'')
      else if url = U ''https://escolar1.rhon.itam.mx/titulacion/titulados.asp?prog=4''
        then Responded (page ''listing'')
      else Responded (page ''no such page''))"

definition example_world :: world where
  "example_world = \<lparr>network = example_network, fs_error = (\<lambda>path. None), trace = []\<rparr>"

text \<open>An environment whose index page has no table at all.\<close>

definition blank_world :: world where
  "blank_world = \<lparr>network = (\<lambda>url k. Responded (page ''no such page'')),
     fs_error = (\<lambda>path. None), trace = []\<rparr>"


section \<open>Facts about strings\<close>

lemma split_from_spaces:
  "\<forall>c\<in>set ws. isspace c \<Longrightarrow> split_from cur ws = (if cur = [] then [] else [cur])"
  by (induction ws arbitrary: cur) auto

lemma split_from_word:
  "\<forall>c\<in>set t. \<not> isspace c \<Longrightarrow> split_from cur (t @ rest) = split_from (cur @ t) rest"
  by (induction t arbitrary: cur) auto

lemma split_from_append_spaces:
  "\<forall>c\<in>set ws. isspace c \<Longrightarrow> split_from cur (s @ ws) = split_from cur s"
  by (induction s arbitrary: cur) (auto simp: split_from_spaces)

lemma split_from_dropWhile:
  "split_from [] (dropWhile isspace s) = split_from [] s"
  by (induction s) auto

lemma rstrip_decomp:
  "rev (dropWhile isspace (rev s)) @ rev (takeWhile isspace (rev s)) = s"
proof -
  have "rev (takeWhile isspace (rev s) @ dropWhile isspace (rev s)) = rev (rev s)"
    by (simp only: takeWhile_dropWhile_id)
  then show ?thesis by (simp only: rev_rev_ident rev_append)
qed

lemma split_from_rstrip:
  "split_from cur (rev (dropWhile isspace (rev s))) = split_from cur s"
proof -
  let ?a = "rev (dropWhile isspace (rev s))" and ?b = "rev (takeWhile isspace (rev s))"
  have sp: "\<forall>c\<in>set ?b. isspace c"
    by (auto dest: set_takeWhileD)
  have "split_from cur (?a @ ?b) = split_from cur ?a"
    by (rule split_from_append_spaces[OF sp])
  then show ?thesis by (simp only: rstrip_decomp)
qed

lemma py_split_strip: "py_split (strip s) = py_split s"
  unfolding py_split_def strip_def
  by (simp only: split_from_rstrip split_from_dropWhile)

lemma split_from_tokens:
  "t \<in> set (split_from cur s) \<Longrightarrow> \<forall>c\<in>set cur. \<not> isspace c \<Longrightarrow> t \<noteq> [] \<and> (\<forall>c\<in>set t. \<not> isspace c)"
proof (induction s arbitrary: cur)
  case Nil
  then show ?case by (auto split: if_splits)
next
  case (Cons c cs)
  show ?case
  proof (cases "isspace c")
    case True
    then have "(t = cur \<and> cur \<noteq> []) \<or> t \<in> set (split_from [] cs)"
      using Cons.prems(1) by (auto split: if_splits)
    then show ?thesis
    proof
      assume "t = cur \<and> cur \<noteq> []"
      then show ?thesis using Cons.prems(2) by simp
    next
      assume "t \<in> set (split_from [] cs)"
      then show ?thesis by (rule Cons.IH) simp
    qed
  next
    case False
    then have "t \<in> set (split_from (cur @ [c]) cs)" using Cons.prems(1) by simp
    moreover have "\<forall>x\<in>set (cur @ [c]). \<not> isspace x" using False Cons.prems(2) by simp
    ultimately show ?thesis by (rule Cons.IH)
  qed
qed

lemma py_split_tokens:
  "t \<in> set (py_split s) \<Longrightarrow> t \<noteq> [] \<and> (\<forall>c\<in>set t. \<not> isspace c)"
  using split_from_tokens[of t "[]" s] by (simp add: py_split_def)

lemma py_split_token:
  "t \<noteq> [] \<Longrightarrow> \<forall>c\<in>set t. \<not> isspace c \<Longrightarrow> py_split t = [t]"
  using split_from_word[of t "[]" "[]"] by (simp add: py_split_def)

lemma isspace_32: "isspace 32" by (simp add: isspace_def)

lemma U_space: "U '' '' = [32]" by (simp add: U_def)

lemma py_split_join:
  "\<forall>t\<in>set ts. t \<noteq> [] \<and> (\<forall>c\<in>set t. \<not> isspace c) \<Longrightarrow> py_split (join [32] ts) = ts"
proof (induction "[32::nat]" ts rule: join.induct)
  case 1
  then show ?case by (simp add: py_split_def)
next
  case (2 x)
  then show ?case by (simp add: py_split_token)
next
  case (3 x y ys)
  have "split_from [] (x @ 32 # join [32] (y # ys)) = split_from x (32 # join [32] (y # ys))"
    using split_from_word[of x "[]"] 3 by simp
  also have "\<dots> = x # split_from [] (join [32] (y # ys))"
    using 3 by (simp add: isspace_32)
  finally show ?case using 3 by (simp add: py_split_def)
qed


lemma strip_all_space: "\<forall>c\<in>set s. isspace c \<Longrightarrow> strip s = []"
proof -
  assume "\<forall>c\<in>set s. isspace c"
  then have "dropWhile isspace s = []" by simp
  then show ?thesis by (simp only: strip_def rev.simps dropWhile.simps)
qed

lemma last_dropWhile_nonempty: "dropWhile P xs \<noteq> [] \<Longrightarrow> last (dropWhile P xs) = last xs"
  by (induction xs) (auto split: if_splits)

lemma strip_ends:
  assumes "strip s \<noteq> []"
  shows "\<not> isspace (hd (strip s)) \<and> \<not> isspace (last (strip s))"
proof -
  let ?t = "dropWhile isspace s"
  let ?r = "dropWhile isspace (rev ?t)"
  have r: "?r \<noteq> []" using assms by (simp only: strip_def rev_is_Nil_conv not_False_eq_True)
  have t: "?t \<noteq> []"
  proof
    assume "?t = []"
    then have "?r = []" by (simp only: rev.simps dropWhile.simps)
    with r show False by contradiction
  qed
  have "last (strip s) = hd ?r" using r by (simp only: strip_def last_rev)
  moreover have "\<not> isspace (hd ?r)" using r by (rule hd_dropWhile)
  moreover have "hd (strip s) = last ?r" using r by (simp only: strip_def hd_rev)
  moreover have "last ?r = last (rev ?t)" using r by (rule last_dropWhile_nonempty)
  moreover have "last (rev ?t) = hd ?t" using t by (simp only: last_rev)
  moreover have "\<not> isspace (hd ?t)" using t by (rule hd_dropWhile)
  ultimately show ?thesis by simp
qed

lemma strip_id:
  "s \<noteq> [] \<Longrightarrow> \<not> isspace (hd s) \<Longrightarrow> \<not> isspace (last s) \<Longrightarrow> strip s = s"
proof -
  assume a: "s \<noteq> []" "\<not> isspace (hd s)" "\<not> isspace (last s)"
  have 1: "dropWhile isspace s = s" using a(1,2) by (cases s) auto
  have "rev s \<noteq> []" "\<not> isspace (hd (rev s))" using a(1,3) by (auto simp: hd_rev)
  then have 2: "dropWhile isspace (rev s) = rev s" by (cases "rev s") auto
  show ?thesis by (simp only: strip_def 1 2 rev_rev_ident)
qed

lemma re_sub_invalid_map:
  "re_sub_invalid [r] name = map (\<lambda>c. if c \<in> set invalid_chars then r else c) name"
  by (induction name) auto

lemma U_underscore: "U ''_'' = [95]" by (simp add: U_def)

lemma isspace_not_invalid: "isspace c \<Longrightarrow> c \<notin> set invalid_chars"
  by (auto simp: isspace_def invalid_chars_def)

lemma not_isspace_95: "\<not> isspace 95" by (simp add: isspace_def)

lemma unknown_ends: "U ''unknown'' \<noteq> [] \<and> \<not> isspace (hd (U ''unknown'')) \<and> \<not> isspace (last (U ''unknown''))"
  by (simp add: U_def isspace_def)

section \<open>Name splitter: the shape of the result\<close>

text \<open>
  Claim C1. For every input string, \<open>split_name\<close> works on the whitespace tokens of
  the input (each token is non-empty and free of whitespace; stripping the input first
  does not change them), and the result is determined by their number: no token gives
  four empty fields; one token is the paternal surname; two tokens are the paternal
  surname and the first name; three tokens are the two surnames and the first name; with
  four or more tokens the first three are the two surnames and the first name, and the
  remaining tokens joined by single spaces are the second name.
\<close>

theorem split_name_shape:
  "(\<forall>t\<in>set (py_split s). t \<noteq> [] \<and> (\<forall>c\<in>set t. \<not> isspace c))
   \<and> split_name s =
     (case py_split s of
        [] \<Rightarrow> \<lparr>apellido_paterno = [], apellido_materno = [], primer_nombre = [], segundo_nombre = []\<rparr>
      | [a] \<Rightarrow> \<lparr>apellido_paterno = a, apellido_materno = [], primer_nombre = [], segundo_nombre = []\<rparr>
      | [a, b] \<Rightarrow> \<lparr>apellido_paterno = a, apellido_materno = [], primer_nombre = b, segundo_nombre = []\<rparr>
      | [a, b, c] \<Rightarrow> \<lparr>apellido_paterno = a, apellido_materno = b, primer_nombre = c, segundo_nombre = []\<rparr>
      | a # b # c # d # r \<Rightarrow> \<lparr>apellido_paterno = a, apellido_materno = b, primer_nombre = c,
             segundo_nombre = join (U '' '') (d # r)\<rparr>)"
proof (intro conjI)
  show "\<forall>t\<in>set (py_split s). t \<noteq> [] \<and> (\<forall>c\<in>set t. \<not> isspace c)"
    using py_split_tokens by blast
qed (simp add: split_name_def py_split_strip Let_def split: list.splits)

theorem split_name_shape_witness:
  "py_split (U ''  GARCIA   LOPEZ MARIA JOSE  LUIS '') =
       [U ''GARCIA'', U ''LOPEZ'', U ''MARIA'', U ''JOSE'', U ''LUIS'']
   \<and> split_name (U ''  GARCIA   LOPEZ MARIA JOSE  LUIS '') =
       \<lparr>apellido_paterno = U ''GARCIA'', apellido_materno = U ''LOPEZ'',
        primer_nombre = U ''MARIA'', segundo_nombre = U ''JOSE LUIS''\<rparr>
   \<and> split_name (U ''GARCIA LOPEZ MARIA'') =
       \<lparr>apellido_paterno = U ''GARCIA'', apellido_materno = U ''LOPEZ'',
        primer_nombre = U ''MARIA'', segundo_nombre = []\<rparr>
   \<and> split_name (U ''GARCIA MARIA'') =
       \<lparr>apellido_paterno = U ''GARCIA'', apellido_materno = [],
        primer_nombre = U ''MARIA'', segundo_nombre = []\<rparr>
   \<and> split_name (U ''GARCIA'') =
       \<lparr>apellido_paterno = U ''GARCIA'', apellido_materno = [],
        primer_nombre = [], segundo_nombre = []\<rparr>
   \<and> split_name (U ''  '') =
       \<lparr>apellido_paterno = [], apellido_materno = [], primer_nombre = [], segundo_nombre = []\<rparr>"
  using split_name_shape[of "U ''  GARCIA   LOPEZ MARIA JOSE  LUIS ''"]
    split_name_shape[of "U ''GARCIA LOPEZ MARIA''"] split_name_shape[of "U ''GARCIA MARIA''"]
    split_name_shape[of "U ''GARCIA''"] split_name_shape[of "U ''  ''"]
  by (simp add: U_def isspace_def py_split_def)


section \<open>Name splitter: no token is lost\<close>

text \<open>
  Claim C9. For every input string, splitting the non-empty fields of the result of
  \<open>split_name\<close> on whitespace again and concatenating the tokens in the order
  paternal surname, maternal surname, first name, second name gives exactly the
  whitespace tokens of the input.
\<close>

theorem split_name_roundtrip:
  "concat (map py_split (filter (\<lambda>f. f \<noteq> [])
      [apellido_paterno (split_name s), apellido_materno (split_name s),
       primer_nombre (split_name s), segundo_nombre (split_name s)])) = py_split s"
proof -
  have tok: "\<forall>t\<in>set (py_split s). t \<noteq> [] \<and> (\<forall>c\<in>set t. \<not> isspace c)"
    using py_split_tokens by blast
  show ?thesis
  proof (cases "py_split s")
    case Nil
    then show ?thesis by (simp add: split_name_def py_split_strip Let_def)
  next
    case (Cons a r1)
    note c1 = Cons
    have a: "py_split a = [a]" "a \<noteq> []" using tok c1 by (auto intro: py_split_token)
    show ?thesis
    proof (cases r1)
      case Nil
      then show ?thesis using c1 a by (simp add: split_name_def py_split_strip Let_def)
    next
      case (Cons b r2)
      note c2 = Cons
      have b: "py_split b = [b]" "b \<noteq> []" using tok c1 c2 by (auto intro: py_split_token)
      show ?thesis
      proof (cases r2)
        case Nil
        then show ?thesis using c1 c2 a b by (simp add: split_name_def py_split_strip Let_def)
      next
        case (Cons c r3)
        note c3 = Cons
        have c: "py_split c = [c]" "c \<noteq> []" using tok c1 c2 c3 by (auto intro: py_split_token)
        show ?thesis
        proof (cases r3)
          case Nil
          then show ?thesis using c1 c2 c3 a b c by (simp add: split_name_def py_split_strip Let_def)
        next
          case (Cons d r4)
          have "\<forall>t\<in>set (d # r4). t \<noteq> [] \<and> (\<forall>c\<in>set t. \<not> isspace c)"
            using tok c1 c2 c3 Cons by simp
          then have j: "py_split (join [32] (d # r4)) = d # r4" by (rule py_split_join)
          have "join [32] (d # r4) \<noteq> []" using j by (auto simp: py_split_def)
          then show ?thesis using c1 c2 c3 Cons a b c j
            by (simp add: split_name_def py_split_strip Let_def U_space)
        qed
      qed
    qed
  qed
qed

theorem split_name_roundtrip_witness:
  "concat (map py_split (filter (\<lambda>f. f \<noteq> [])
      [apellido_paterno (split_name (U ''GARCIA LOPEZ MARIA JOSE LUIS'')),
       apellido_materno (split_name (U ''GARCIA LOPEZ MARIA JOSE LUIS'')),
       primer_nombre (split_name (U ''GARCIA LOPEZ MARIA JOSE LUIS'')),
       segundo_nombre (split_name (U ''GARCIA LOPEZ MARIA JOSE LUIS''))]))
   = [U ''GARCIA'', U ''LOPEZ'', U ''MARIA'', U ''JOSE'', U ''LUIS'']"
  using split_name_roundtrip[of "U ''GARCIA LOPEZ MARIA JOSE LUIS''"]
  by (simp add: U_def isspace_def py_split_def)


section \<open>File names\<close>

text \<open>
  Claim C10. For every label, \<open>sanitize_filename\<close> replaces each of the characters
  of \<open>invalid_chars\<close> (\<open><\<close>, \<open>>\<close>, \<open>:\<close>, the double quote, \<open>/\<close>, the backslash, \<open>|\<close>,
  \<open>?\<close>, \<open>*\<close>) by an underscore and then strips whitespace at both ends; an
  empty result is replaced by the placeholder \<open>unknown\<close>. So a label of whitespace
  only (or the empty label) gives the placeholder, the result never begins or ends with
  whitespace, and a non-empty label of unsafe characters only gives as many underscores.
\<close>

theorem sanitize_filename_spec:
  "sanitize_filename name =
     (let s = strip (map (\<lambda>c. if c \<in> set invalid_chars then of_char CHR ''_'' else c) name)
      in if s = [] then U ''unknown'' else s)
   \<and> ((\<forall>c\<in>set name. isspace c) \<longrightarrow> sanitize_filename name = U ''unknown'')
   \<and> sanitize_filename name \<noteq> []
   \<and> \<not> isspace (hd (sanitize_filename name))
   \<and> \<not> isspace (last (sanitize_filename name))
   \<and> (name \<noteq> [] \<and> set name \<subseteq> set invalid_chars \<longrightarrow>
        sanitize_filename name = replicate (length name) (of_char CHR ''_''))"
proof -
  let ?m = "map (\<lambda>c. if c \<in> set invalid_chars then 95 else c) name"
  have def: "sanitize_filename name = (if strip ?m = [] then U ''unknown'' else strip ?m)"
    by (simp add: sanitize_filename_def U_underscore re_sub_invalid_map)
  have ws: "sanitize_filename name = U ''unknown''" if "\<forall>c\<in>set name. isspace c"
  proof -
    have "?m = name" using that by (auto simp: isspace_not_invalid intro: map_idI)
    then have "strip ?m = []" using that by (simp add: strip_all_space)
    then show ?thesis by (simp add: def)
  qed
  have ends: "sanitize_filename name \<noteq> [] \<and> \<not> isspace (hd (sanitize_filename name))
      \<and> \<not> isspace (last (sanitize_filename name))"
  proof (cases "strip ?m = []")
    case True
    then show ?thesis using unknown_ends by (simp add: def)
  next
    case False
    then show ?thesis using strip_ends[OF False] by (simp add: def)
  qed
  have inv: "sanitize_filename name = replicate (length name) 95"
    if "name \<noteq> []" "set name \<subseteq> set invalid_chars"
  proof -
    have m: "?m = replicate (length name) 95"
      using that(2) by (induction name) auto
    have "strip (replicate (length name) 95) = replicate (length name) 95"
      using that(1) by (intro strip_id) (auto simp: not_isspace_95 hd_replicate last_replicate)
    then show ?thesis using that(1) by (simp add: def m)
  qed
  have c95: "(of_char CHR ''_'' :: nat) = 95" by simp
  show ?thesis unfolding c95 Let_def
  proof (intro conjI impI)
    show "sanitize_filename name = (if strip ?m = [] then U ''unknown'' else strip ?m)"
      by (rule def)
    show "sanitize_filename name = U ''unknown''" if "\<forall>c\<in>set name. isspace c"
      using that by (rule ws)
    show "sanitize_filename name \<noteq> []" "\<not> isspace (hd (sanitize_filename name))"
      "\<not> isspace (last (sanitize_filename name))"
      using ends by blast+
    show "sanitize_filename name = replicate (length name) 95"
      if "name \<noteq> [] \<and> set name \<subseteq> set invalid_chars"
      using that inv by blast
  qed
qed

theorem sanitize_filename_spec_witness:
  "list_all isspace (U ''  '') \<and> sanitize_filename (U ''  '') = U ''unknown''
   \<and> U ''?'' \<noteq> [] \<and> set (U ''?'') \<subseteq> set invalid_chars
   \<and> sanitize_filename (U ''?'') = replicate (length (U ''?'')) (of_char CHR ''_'')
   \<and> sanitize_filename (U '' A/B: C '') = U ''A_B_ C''"
  using sanitize_filename_spec[of "U ''  ''"] sanitize_filename_spec[of "U ''?''"]
    sanitize_filename_spec[of "U '' A/B: C ''"]
  by (simp add: U_def isspace_def invalid_chars_def strip_def)

section \<open>Facts about the example documents\<close>

lemma inj_of_char_nat: "inj (of_char :: char \<Rightarrow> nat)"
  by (rule injI) simp

lemma U_eq_iff: "U a = U b \<longleftrightarrow> a = b"
  unfolding U_def by (rule inj_map_eq_map[OF inj_of_char_nat])

lemmas example_defs = index_doc_def lic_table_def mae_table_def doc_table_def lic2_table_def
  section_table_def anchor_def nested_doc_def nested_outer_def protocol_relative_doc_def
  data_row_def no_year_table_def first_data_table_def second_data_table_def listing_doc_def
  empty_doc_def

lemmas text_defs = get_text_strip_def strip_def isspace_def U_def Let_def

lemma example_soup_pages:
  "example_soup (U ''index'') = index_doc"
  "example_soup (U ''nested'') = nested_doc"
  "example_soup (U ''protocol-relative'') = protocol_relative_doc"
  "example_soup (U ''listing'') = listing_doc"
  by (simp_all add: example_soup_def U_eq_iff)

lemma index_tables:
  "find_all [U ''table''] index_doc = [lic_table, mae_table, doc_table, lic2_table]"
  by (simp add: example_defs find_all_def U_eq_iff)

lemma nested_tables:
  "find_all [U ''table''] nested_doc = [nested_outer, doc_table]"
  by (simp add: example_defs find_all_def U_eq_iff)

lemma protocol_relative_tables:
  "find_all [U ''table''] protocol_relative_doc =
     [section_table ''LICENCIATURA''
        [anchor ''//escolar1.rhon.itam.mx/titulacion/titulados.asp?prog=1'' ''ACTUARIA'']]"
  by (simp add: example_defs find_all_def U_eq_iff)

lemma section_name_of_section_table:
  "section_name_of up (section_table title anchors) = Some (up (strip (U title)))"
  by (simp add: section_name_of_def section_table_def find_first_def find_all_def U_eq_iff
      get_text_strip_def Let_def)


lemma example_sections:
  "section_name_of ascii_upper lic_table = Some (U ''LICENCIATURA'')"
  "section_name_of ascii_upper mae_table = Some (U ''MAESTRIA'')"
  "section_name_of ascii_upper doc_table = Some (U ''DOCTORADO'')"
  "section_name_of ascii_upper lic2_table = Some (U ''LICENCIATURA'')"
  "section_name_of ascii_upper nested_outer = Some (U ''LICENCIATURA'')"
  "section_name_of ascii_upper (section_table ''LICENCIATURA'' xs) = Some (U ''LICENCIATURA'')"
  by (simp_all add: section_name_of_section_table lic_table_def mae_table_def doc_table_def
      lic2_table_def nested_outer_def ascii_upper_def strip_def isspace_def U_def)

lemma anchors_of_section_table:
  "find_all_with_attr (U ''a'') (U ''href'') (section_table title (map (\<lambda>p. anchor (fst p) (snd p)) ps))
     = map (\<lambda>p. anchor (fst p) (snd p)) ps"
  by (induction ps) (simp_all add: find_all_with_attr_def section_table_def anchor_def U_eq_iff)

lemma example_anchor_links:
  "anchor_link (anchor ''titulados.asp?prog=1'' ''ACTUARIA'') =
     [(U ''ACTUARIA'', U ''https://escolar1.rhon.itam.mx/titulacion/titulados.asp?prog=1'')]"
  "anchor_link (anchor ''/titulacion/titulados.asp?prog=2'' ''DERECHO'') =
     [(U ''DERECHO'', U ''https://escolar1.rhon.itam.mx/titulacion/titulados.asp?prog=2'')]"
  "anchor_link (anchor ''http://escolar1.rhon.itam.mx/titulacion/titulados.asp?prog=3'' ''ECONOMIA'') =
     [(U ''ECONOMIA'', U ''http://escolar1.rhon.itam.mx/titulacion/titulados.asp?prog=3'')]"
  "anchor_link (anchor ''programas.asp'' ''INICIO'') = []"
  "anchor_link (anchor ''titulados.asp?prog=90'' ''ECONOMIA'') =
     [(U ''ECONOMIA'', U ''https://escolar1.rhon.itam.mx/titulacion/titulados.asp?prog=90'')]"
  "anchor_link (anchor ''//escolar1.rhon.itam.mx/titulacion/titulados.asp?prog=1'' ''ACTUARIA'') =
     [(U ''ACTUARIA'',
       U ''https://escolar1.rhon.itam.mx//escolar1.rhon.itam.mx/titulacion/titulados.asp?prog=1'')]"
  by (simp_all add: anchor_link_def anchor_def BASE_URL_def text_defs)

lemma lic_table_links:
  "table_links lic_table =
     [(U ''ACTUARIA'', U ''https://escolar1.rhon.itam.mx/titulacion/titulados.asp?prog=1''),
      (U ''DERECHO'', U ''https://escolar1.rhon.itam.mx/titulacion/titulados.asp?prog=2''),
      (U ''ECONOMIA'', U ''http://escolar1.rhon.itam.mx/titulacion/titulados.asp?prog=3'')]"
  using anchors_of_section_table[of "''Licenciatura''"
      "[(''titulados.asp?prog=1'', ''ACTUARIA''), (''/titulacion/titulados.asp?prog=2'', ''DERECHO''),
        (''http://escolar1.rhon.itam.mx/titulacion/titulados.asp?prog=3'', ''ECONOMIA''),
        (''programas.asp'', ''INICIO'')]"]
  by (simp add: lic_table_def table_links_def example_anchor_links)

lemma doc_table_anchors:
  "find_all_with_attr (U ''a'') (U ''href'') doc_table = [anchor ''titulados.asp?prog=90'' ''ECONOMIA'']"
  using anchors_of_section_table[of "''DOCTORADO''" "[(''titulados.asp?prog=90'', ''ECONOMIA'')]"]
  by (simp add: doc_table_def)

lemma nested_anchors:
  "find_all_with_attr (U ''a'') (U ''href'') nested_outer = [anchor ''titulados.asp?prog=90'' ''ECONOMIA'']"
  "find_all_with_attr (U ''a'') (U ''href'') nested_doc = [anchor ''titulados.asp?prog=90'' ''ECONOMIA'']"
  by (simp_all add: nested_doc_def nested_outer_def doc_table_def find_all_with_attr_def
      section_table_def anchor_def U_eq_iff)

lemma protocol_relative_links:
  "table_links (section_table ''LICENCIATURA''
        [anchor ''//escolar1.rhon.itam.mx/titulacion/titulados.asp?prog=1'' ''ACTUARIA'']) =
     [(U ''ACTUARIA'',
       U ''https://escolar1.rhon.itam.mx//escolar1.rhon.itam.mx/titulacion/titulados.asp?prog=1'')]"
  using anchors_of_section_table[of "''LICENCIATURA''"
      "[(''//escolar1.rhon.itam.mx/titulacion/titulados.asp?prog=1'', ''ACTUARIA'')]"]
  by (simp add: table_links_def example_anchor_links)

section \<open>Facts about the parsers\<close>

lemma contains_nonempty_Nil: "p \<noteq> [] \<Longrightarrow> \<not> contains p []"
  by simp

lemma U_Nombre_nonempty: "U ''Nombre'' \<noteq> []"
  by (simp add: U_def)

lemma titulados_loop_skip:
  "\<not> (contains (U ''Nombre'') (header_text_of t) \<and> contains (U ''alumno'') (header_text_of t)
       \<and> contains (U ''titulaci'') (header_text_of t))
   \<Longrightarrow> titulados_loop (t # rest) = titulados_loop rest"
  by (auto simp: header_text_of_def Let_def)

lemma titulados_loop_hit:
  assumes "contains (U ''Nombre'') (header_text_of t)" "contains (U ''alumno'') (header_text_of t)"
    "contains (U ''titulaci'') (header_text_of t)"
  shows "titulados_loop (t # rest) = table_rows t"
proof -
  have "header_cells_of t \<noteq> []"
  proof
    assume "header_cells_of t = []"
    then have "header_text_of t = []" by (simp add: header_text_of_def)
    with assms(1) show False by (simp add: U_Nombre_nonempty)
  qed
  then show ?thesis using assms by (simp add: header_text_of_def Let_def)
qed


lemma programas_loop_skip:
  "section_name_of up t \<noteq> Some (U ''DOCTORADO'') \<Longrightarrow>
   programas_loop up (t # rest) =
     (if section_name_of up t = Some (U ''LICENCIATURA'') then table_links t else [])
     @ programas_loop up rest"
  by (auto split: option.splits)

lemma programas_loop_stop:
  "section_name_of up d = Some (U ''DOCTORADO'') \<Longrightarrow> programas_loop up (d # rest) = []"
  by simp

lemma programas_loop_prefix:
  "\<forall>t\<in>set pre. section_name_of up t \<noteq> Some (U ''DOCTORADO'') \<Longrightarrow>
   programas_loop up (pre @ rest) =
     concat (map table_links (filter (\<lambda>t. section_name_of up t = Some (U ''LICENCIATURA'')) pre))
     @ programas_loop up rest"
proof (induction pre)
  case Nil
  then show ?case by simp
next
  case (Cons a pre)
  have "programas_loop up (a # (pre @ rest)) =
     (if section_name_of up a = Some (U ''LICENCIATURA'') then table_links a else [])
     @ programas_loop up (pre @ rest)"
    using Cons.prems by (intro programas_loop_skip) simp
  then show ?case using Cons by simp
qed

lemma anchor_link_nonempty:
  "anchor_link a \<noteq> [] \<longleftrightarrow>
     (contains (U ''titulados.asp'') (strip (attr_get a (U ''href'') []))
      \<and> contains (U ''prog='') (strip (attr_get a (U ''href'') []))
      \<and> get_text_strip a \<noteq> [])"
  by (auto simp: anchor_link_def Let_def)


lemma descendants_trans:
  "t \<in> set (descendants d) \<Longrightarrow> x \<in> set (descendants t) \<Longrightarrow> x \<in> set (descendants d)"
proof (induction d arbitrary: t x)
  case (Text s)
  then show ?case by simp
next
  case (Tag n a cs)
  from Tag.prems(1) obtain c where c: "c \<in> set cs" "t = c \<or> t \<in> set (descendants c)"
    by auto
  from c(2) have "x \<in> set (descendants c)"
  proof
    assume "t = c" then show ?thesis using Tag.prems(2) by simp
  next
    assume "t \<in> set (descendants c)"
    then show ?thesis using Tag.IH[OF c(1)] Tag.prems(2) by blast
  qed
  then show ?case using c(1) by auto
qed

lemma find_all_sub: "t \<in> set (find_all names d) \<Longrightarrow> t \<in> set (descendants d)"
  by (simp add: find_all_def)

lemma anchors_of_table:
  "t \<in> set (find_all names d) \<Longrightarrow> a \<in> set (find_all_with_attr n k t)
   \<Longrightarrow> a \<in> set (find_all_with_attr n k d)"
  using descendants_trans[of t d a] by (auto simp: find_all_def find_all_with_attr_def)

lemma programas_loop_from_tables:
  "p \<in> set (programas_loop up ts) \<Longrightarrow> \<exists>t\<in>set ts. p \<in> set (table_links t)"
proof (induction ts)
  case Nil
  then show ?case by simp
next
  case (Cons t ts)
  then show ?case by (auto split: option.splits if_splits)
qed

lemma anchor_link_result:
  "p \<in> set (anchor_link a) \<Longrightarrow>
     fst p = get_text_strip a \<and>
     snd p = (let href = strip (attr_get a (U ''href'') [])
              in if startswith href (U ''http'') then href
                 else if startswith href (U ''/'') then U ''https://escolar1.rhon.itam.mx'' @ href
                 else BASE_URL @ U ''/'' @ href)"
  by (auto simp: anchor_link_def Let_def split: if_splits)


lemma listing_tables:
  "find_all [U ''table''] listing_doc = [no_year_table, first_data_table, second_data_table]"
  by (simp add: example_defs find_all_def U_eq_iff)


lemma listing_headers:
  "header_text_of no_year_table = U ''Nombre del alumno Matricula''"
  "header_text_of first_data_table = U ''Nombre del alumno Fecha de titulacion''"
  "header_text_of second_data_table = U ''Nombre del alumno Fecha de titulacion''"
  by (simp_all add: header_text_of_def header_cells_of_def find_first_def find_all_def
      no_year_table_def first_data_table_def second_data_table_def data_row_def text_defs)

lemma listing_markers:
  "contains (U ''Nombre'') (U ''Nombre del alumno Matricula'')"
  "contains (U ''alumno'') (U ''Nombre del alumno Matricula'')"
  "\<not> contains (U ''titulaci'') (U ''Nombre del alumno Matricula'')"
  "contains (U ''Nombre'') (U ''Nombre del alumno Fecha de titulacion'')"
  "contains (U ''alumno'') (U ''Nombre del alumno Fecha de titulacion'')"
  "contains (U ''titulaci'') (U ''Nombre del alumno Fecha de titulacion'')"
  by (simp_all add: U_def)

lemma first_data_table_rows:
  "table_rows first_data_table =
     [(U ''GARCIA LOPEZ MARIA JOSE'', U ''2020''), (U ''DIAZ JUAN'', [])]"
  by (simp add: table_rows_def row_data_def find_all_def first_data_table_def data_row_def
      text_defs)

section \<open>Table parser: the first matching table\<close>



section \<open>Index parser: the terminator\<close>

text \<open>
  Claim C3, as the code has it. \<open>parse_programas\<close> goes through the tables in document
  order and stops at the first one whose single-cell header is \<open>DOCTORADO\<close> in upper
  case: that table and every table after it contribute nothing of their own, also a
  later \<open>LICENCIATURA\<close> table. Each table before it whose single-cell header is
  \<open>LICENCIATURA\<close> contributes, in order, the links of the qualifying anchors below it
  (address containing \<open>titulados.asp\<close> and \<open>prog=\<close>, non-empty text). The anchors
  below a table include those of tables nested in it, so the anchors of a
  \<open>DOCTORADO\<close> table nested in an earlier \<open>LICENCIATURA\<close> table are returned with that
  table's.
\<close>

theorem parse_programas_hard_stop:
  "(find_all [U ''table''] (soup html) = pre @ d # post
      \<and> (\<forall>t\<in>set pre. section_name_of up t \<noteq> Some (U ''DOCTORADO''))
      \<and> section_name_of up d = Some (U ''DOCTORADO'')
    \<longrightarrow> parse_programas soup up html =
          concat (map table_links
            (filter (\<lambda>t. section_name_of up t = Some (U ''LICENCIATURA'')) pre)))
   \<and> ((\<forall>t\<in>set (find_all [U ''table''] (soup html)).
          section_name_of up t \<noteq> Some (U ''DOCTORADO''))
    \<longrightarrow> parse_programas soup up html =
          concat (map table_links
            (filter (\<lambda>t. section_name_of up t = Some (U ''LICENCIATURA''))
               (find_all [U ''table''] (soup html)))))
   \<and> table_links t = concat (map anchor_link (find_all_with_attr (U ''a'') (U ''href'') t))
   \<and> (anchor_link a \<noteq> [] \<longleftrightarrow>
        (contains (U ''titulados.asp'') (strip (attr_get a (U ''href'') []))
         \<and> contains (U ''prog='') (strip (attr_get a (U ''href'') []))
         \<and> get_text_strip a \<noteq> []))"
proof (intro conjI impI)
  assume a: "find_all [U ''table''] (soup html) = pre @ d # post
      \<and> (\<forall>t\<in>set pre. section_name_of up t \<noteq> Some (U ''DOCTORADO''))
      \<and> section_name_of up d = Some (U ''DOCTORADO'')"
  then have "programas_loop up (pre @ d # post) =
     concat (map table_links (filter (\<lambda>t. section_name_of up t = Some (U ''LICENCIATURA'')) pre))
     @ programas_loop up (d # post)"
    by (intro programas_loop_prefix) blast
  then show "parse_programas soup up html =
          concat (map table_links
            (filter (\<lambda>t. section_name_of up t = Some (U ''LICENCIATURA'')) pre))"
    using a by (simp add: parse_programas_def)
next
  assume a: "\<forall>t\<in>set (find_all [U ''table''] (soup html)).
          section_name_of up t \<noteq> Some (U ''DOCTORADO'')"
  from programas_loop_prefix[OF this, of "[]"]
  show "parse_programas soup up html =
          concat (map table_links
            (filter (\<lambda>t. section_name_of up t = Some (U ''LICENCIATURA''))
               (find_all [U ''table''] (soup html))))"
    by (simp add: parse_programas_def)
next
  show "table_links t = concat (map anchor_link (find_all_with_attr (U ''a'') (U ''href'') t))"
    by (simp add: table_links_def)
next
  show "anchor_link a \<noteq> [] \<longleftrightarrow>
        (contains (U ''titulados.asp'') (strip (attr_get a (U ''href'') []))
         \<and> contains (U ''prog='') (strip (attr_get a (U ''href'') []))
         \<and> get_text_strip a \<noteq> [])"
    by (rule anchor_link_nonempty)
qed

theorem parse_programas_hard_stop_witness:
  "find_all [U ''table''] (example_soup (U ''index''))
     = [lic_table, mae_table] @ doc_table # [lic2_table]
   \<and> section_name_of ascii_upper lic_table = Some (U ''LICENCIATURA'')
   \<and> section_name_of ascii_upper mae_table = Some (U ''MAESTRIA'')
   \<and> section_name_of ascii_upper doc_table = Some (U ''DOCTORADO'')
   \<and> section_name_of ascii_upper lic2_table = Some (U ''LICENCIATURA'')
   \<and> parse_programas example_soup ascii_upper (U ''index'') =
       [(U ''ACTUARIA'', U ''https://escolar1.rhon.itam.mx/titulacion/titulados.asp?prog=1''),
        (U ''DERECHO'', U ''https://escolar1.rhon.itam.mx/titulacion/titulados.asp?prog=2''),
        (U ''ECONOMIA'', U ''http://escolar1.rhon.itam.mx/titulacion/titulados.asp?prog=3'')]
   \<and> parse_programas example_soup ascii_upper (U ''protocol-relative'') =
       [(U ''ACTUARIA'',
         U ''https://escolar1.rhon.itam.mx//escolar1.rhon.itam.mx/titulacion/titulados.asp?prog=1'')]"
  using parse_programas_hard_stop[of example_soup "U ''index''" "[lic_table, mae_table]"
      doc_table "[lic2_table]" ascii_upper, THEN conjunct1]
    parse_programas_hard_stop[of example_soup "U ''protocol-relative''" _ _ _ ascii_upper,
      THEN conjunct2, THEN conjunct1]
  by (simp add: example_soup_pages index_tables protocol_relative_tables example_sections
      lic_table_links protocol_relative_links U_eq_iff)

theorem parse_programas_nested_counterexample:
  "find_all [U ''table''] (example_soup (U ''nested'')) = [nested_outer, doc_table]
   \<and> section_name_of ascii_upper doc_table = Some (U ''DOCTORADO'')
   \<and> find_all_with_attr (U ''a'') (U ''href'') (example_soup (U ''nested''))
       = [anchor ''titulados.asp?prog=90'' ''ECONOMIA'']
   \<and> find_all_with_attr (U ''a'') (U ''href'') doc_table
       = [anchor ''titulados.asp?prog=90'' ''ECONOMIA'']
   \<and> parse_programas example_soup ascii_upper (U ''nested'') =
       [(U ''ECONOMIA'', U ''https://escolar1.rhon.itam.mx/titulacion/titulados.asp?prog=90'')]"
  by (simp add: example_soup_pages nested_tables example_sections nested_anchors
      doc_table_anchors parse_programas_def table_links_def example_anchor_links U_eq_iff)

section \<open>Index parser: addresses\<close>

text \<open>
  Claim C8, as the code has it. Every pair returned by \<open>parse_programas\<close> comes from
  an anchor of the document: its label is the anchor's text, and its address is made
  from the stripped \<open>href\<close>: unchanged when it begins with \<open>http\<close>; prefixed with the
  site's origin \<open>https://escolar1.rhon.itam.mx\<close> when it begins with \<open>/\<close> (so also
  a protocol-relative address beginning with \<open>//\<close>); prefixed with the base address and
  \<open>/\<close> otherwise.
\<close>

theorem parse_programas_urls:
  "(name, url) \<in> set (parse_programas soup up html) \<Longrightarrow>
   \<exists>a\<in>set (find_all_with_attr (U ''a'') (U ''href'') (soup html)).
     name = get_text_strip a \<and>
     url = (let href = strip (attr_get a (U ''href'') [])
            in if startswith href (U ''http'') then href
               else if startswith href (U ''/'') then U ''https://escolar1.rhon.itam.mx'' @ href
               else BASE_URL @ U ''/'' @ href)"
proof -
  assume "(name, url) \<in> set (parse_programas soup up html)"
  then have "(name, url) \<in> set (programas_loop up (find_all [U ''table''] (soup html)))"
    by (simp add: parse_programas_def)
  from programas_loop_from_tables[OF this]
  obtain t where t: "t \<in> set (find_all [U ''table''] (soup html))"
      "(name, url) \<in> set (table_links t)"
    by blast
  then obtain a where a: "a \<in> set (find_all_with_attr (U ''a'') (U ''href'') t)"
      "(name, url) \<in> set (anchor_link a)"
    by (auto simp: table_links_def)
  have "a \<in> set (find_all_with_attr (U ''a'') (U ''href'') (soup html))"
    using t(1) a(1) by (rule anchors_of_table)
  then show ?thesis using anchor_link_result[OF a(2)] by auto
qed

theorem parse_programas_urls_witness:
  "(U ''DERECHO'', U ''https://escolar1.rhon.itam.mx/titulacion/titulados.asp?prog=2'')
     \<in> set (parse_programas example_soup ascii_upper (U ''index''))
   \<and> (\<exists>a\<in>set (find_all_with_attr (U ''a'') (U ''href'') (example_soup (U ''index''))).
        U ''DERECHO'' = get_text_strip a \<and>
        U ''https://escolar1.rhon.itam.mx/titulacion/titulados.asp?prog=2'' =
          (let href = strip (attr_get a (U ''href'') [])
           in if startswith href (U ''http'') then href
              else if startswith href (U ''/'') then U ''https://escolar1.rhon.itam.mx'' @ href
              else BASE_URL @ U ''/'' @ href))"
proof -
  have m: "(U ''DERECHO'', U ''https://escolar1.rhon.itam.mx/titulacion/titulados.asp?prog=2'')
     \<in> set (parse_programas example_soup ascii_upper (U ''index''))"
    by (simp add: parse_programas_def example_soup_pages index_tables example_sections
        lic_table_links U_eq_iff)
  from parse_programas_urls[OF m] m show ?thesis by blast
qed

theorem parse_programas_protocol_relative_counterexample:
  "find_all_with_attr (U ''a'') (U ''href'') (example_soup (U ''protocol-relative''))
     = [anchor ''//escolar1.rhon.itam.mx/titulacion/titulados.asp?prog=1'' ''ACTUARIA'']
   \<and> attr_get (anchor ''//escolar1.rhon.itam.mx/titulacion/titulados.asp?prog=1'' ''ACTUARIA'')
        (U ''href'') [] = U ''//escolar1.rhon.itam.mx/titulacion/titulados.asp?prog=1''
   \<and> parse_programas example_soup ascii_upper (U ''protocol-relative'') =
       [(U ''ACTUARIA'',
         U ''https://escolar1.rhon.itam.mx//escolar1.rhon.itam.mx/titulacion/titulados.asp?prog=1'')]
   \<and> U ''https://escolar1.rhon.itam.mx//escolar1.rhon.itam.mx/titulacion/titulados.asp?prog=1''
       \<noteq> U ''//escolar1.rhon.itam.mx/titulacion/titulados.asp?prog=1''"
proof (intro conjI)
  show "find_all_with_attr (U ''a'') (U ''href'') (example_soup (U ''protocol-relative''))
     = [anchor ''//escolar1.rhon.itam.mx/titulacion/titulados.asp?prog=1'' ''ACTUARIA'']"
    by (simp add: example_soup_pages protocol_relative_doc_def find_all_with_attr_def
        section_table_def anchor_def U_eq_iff)
  show "attr_get (anchor ''//escolar1.rhon.itam.mx/titulacion/titulados.asp?prog=1'' ''ACTUARIA'')
        (U ''href'') [] = U ''//escolar1.rhon.itam.mx/titulacion/titulados.asp?prog=1''"
    by (simp add: anchor_def)
  show "parse_programas example_soup ascii_upper (U ''protocol-relative'') =
       [(U ''ACTUARIA'',
         U ''https://escolar1.rhon.itam.mx//escolar1.rhon.itam.mx/titulacion/titulados.asp?prog=1'')]"
    by (simp add: example_soup_pages protocol_relative_tables example_sections
        parse_programas_def protocol_relative_links U_eq_iff)
  show "U ''https://escolar1.rhon.itam.mx//escolar1.rhon.itam.mx/titulacion/titulados.asp?prog=1''
       \<noteq> U ''//escolar1.rhon.itam.mx/titulacion/titulados.asp?prog=1''"
    by (simp add: U_eq_iff)
qed

section \<open>Facts about the trace\<close>

lemma emit_simps:
  "network (emit e w) = network w"
  "fs_error (emit e w) = fs_error w"
  "trace (emit e w) = trace w @ [e]"
  by (simp_all add: emit_def)

lemma emit_update: "emit e (w\<lparr>trace := t\<rparr>) = w\<lparr>trace := t @ [e]\<rparr>"
  by (simp add: emit_def)

lemma emit_as_update: "emit e w = w\<lparr>trace := trace w @ [e]\<rparr>"
  by (simp add: emit_def)

lemma attempts_list: "[0..<RETRIES + 1] = [0, 1, 2]"
  by (simp add: RETRIES_def upt_rec)

lemma get_latest_html_unfold:
  "get_latest_html url fe w =
    (case network w url (requests_made url w) of
       Responded r \<Rightarrow> (Inr (response_text r fe), w\<lparr>trace := trace w @ [Fetch url fe, Get url]\<rparr>)
     | Failed e0 \<Rightarrow>
       (case network w url (requests_made url w + 1) of
          Responded r \<Rightarrow> (Inr (response_text r fe),
             w\<lparr>trace := trace w @ [Fetch url fe, Get url, Sleep 2, Get url]\<rparr>)
        | Failed e1 \<Rightarrow>
          (case network w url (requests_made url w + 2) of
             Responded r \<Rightarrow> (Inr (response_text r fe),
               w\<lparr>trace := trace w @ [Fetch url fe, Get url, Sleep 2, Get url, Sleep 2, Get url]\<rparr>)
           | Failed e2 \<Rightarrow>
               (Inl (RuntimeError (U ''Failed to fetch '' @ url @ U '': '' @ e2) (RequestException e2)),
                w\<lparr>trace := trace w @ [Fetch url fe, Get url, Sleep 2, Get url, Sleep 2, Get url]\<rparr>))))"
  unfolding get_latest_html_def attempts_list
  by (simp add: emit_def requests_made_def RETRIES_def RETRY_DELAY_def
      split: http_result.splits)

section \<open>Fetcher: retries\<close>


lemma get_latest_html_effect:
  "get_latest_html url fe w = (r, w') \<Longrightarrow>
   \<exists>evs. w' = w\<lparr>trace := trace w @ Fetch url fe # evs\<rparr> \<and> fetch_calls evs = [] \<and> written evs = []"
  by (auto simp: get_latest_html_unfold split: http_result.splits)

lemma new_events_update: "new_events w (w\<lparr>trace := trace w @ evs\<rparr>) = evs"
  by (simp add: new_events_def)

lemma fetch_calls_append: "fetch_calls (xs @ ys) = fetch_calls xs @ fetch_calls ys"
  by (induction xs rule: fetch_calls.induct) simp_all

lemma written_append: "written (xs @ ys) = written xs @ written ys"
  by (induction xs rule: written.induct) simp_all

lemma scrape_career_unfold:
  assumes "get_latest_html url None w = (Inr html, w1)"
  shows "scrape_career soup name url dir w =
    (if parse_titulados_table soup html = [] \<and> contains (U ''titulados.asp'') url
     then (case get_latest_html url (Some (U ''iso-8859-1'')) w1 of
             (Inl e, w2) \<Rightarrow> (Inl e, w2)
           | (Inr html2, w2) \<Rightarrow>
               (case fs_error w2 (dir @ U ''/'' @ sanitize_filename name @ U ''.csv'') of
                  Some m \<Rightarrow> (Inl (OSError m), w2)
                | None \<Rightarrow>
                    (Inr (length (parse_titulados_table soup html2)),
                     emit (Write (dir @ U ''/'' @ sanitize_filename name @ U ''.csv'')
                       (fieldnames # map csv_row (parse_titulados_table soup html2))) w2)))
     else (case fs_error w1 (dir @ U ''/'' @ sanitize_filename name @ U ''.csv'') of
             Some m \<Rightarrow> (Inl (OSError m), w1)
           | None \<Rightarrow>
               (Inr (length (parse_titulados_table soup html)),
                emit (Write (dir @ U ''/'' @ sanitize_filename name @ U ''.csv'')
                  (fieldnames # map csv_row (parse_titulados_table soup html))) w1)))"
  by (simp add: scrape_career_def assms Let_def split: prod.splits sum.splits option.splits)


section \<open>Category worker: the forced-encoding retry\<close>

text \<open>
  Claim C2. When the first fetch of \<open>scrape_career\<close> succeeds and its page parses to
  zero rows, and the address contains \<open>titulados.asp\<close>, the worker calls
  \<open>get_latest_html\<close> exactly once more, on the same address, with \<open>iso-8859-1\<close>
  forced; when that fetch succeeds and the file can be written, the worker returns the
  number of rows of the second parse, so 0 and no error when it is empty again. When
  the first parse yields rows, the only call of \<open>get_latest_html\<close> is the first one.
\<close>

theorem scrape_career_retry:
  assumes first: "get_latest_html url None w = (Inr html, w1)"
  shows "(parse_titulados_table soup html = [] \<and> contains (U ''titulados.asp'') url \<longrightarrow>
            fetch_calls (new_events w (snd (scrape_career soup name url dir w)))
              = [Fetch url None, Fetch url (Some (U ''iso-8859-1''))]
            \<and> (\<forall>html2 w2.
                  get_latest_html url (Some (U ''iso-8859-1'')) w1 = (Inr html2, w2)
                  \<and> fs_error w (dir @ U ''/'' @ sanitize_filename name @ U ''.csv'') = None
                  \<longrightarrow> fst (scrape_career soup name url dir w)
                        = Inr (length (parse_titulados_table soup html2))
                      \<and> (parse_titulados_table soup html2 = []
                           \<longrightarrow> fst (scrape_career soup name url dir w) = Inr 0)))
         \<and> (parse_titulados_table soup html \<noteq> [] \<longrightarrow>
              fetch_calls (new_events w (snd (scrape_career soup name url dir w)))
                = [Fetch url None])"
proof -
  let ?path = "dir @ U ''/'' @ sanitize_filename name @ U ''.csv''"
  let ?iso = "Some (U ''iso-8859-1'')"
  from get_latest_html_effect[OF first]
  obtain evs1 where w1: "w1 = w\<lparr>trace := trace w @ Fetch url None # evs1\<rparr>"
    and evs1: "fetch_calls evs1 = []" by blast
  obtain r2 w2 where second: "get_latest_html url ?iso w1 = (r2, w2)"
    by (cases "get_latest_html url ?iso w1") blast
  from get_latest_html_effect[OF second]
  obtain evs2 where w2': "w2 = w1\<lparr>trace := trace w1 @ Fetch url ?iso # evs2\<rparr>"
    and evs2: "fetch_calls evs2 = []" by blast
  have w2: "w2 = w\<lparr>trace := trace w @ (Fetch url None # evs1 @ Fetch url ?iso # evs2)\<rparr>"
    by (simp add: w2' w1)
  have retry: "fetch_calls (new_events w (snd (scrape_career soup name url dir w)))
                 = [Fetch url None, Fetch url ?iso]"
    if "parse_titulados_table soup html = []" "contains (U ''titulados.asp'') url"
  proof -
    have "\<exists>tl. snd (scrape_career soup name url dir w)
            = w\<lparr>trace := trace w @ (Fetch url None # evs1 @ Fetch url ?iso # evs2) @ tl\<rparr>
          \<and> fetch_calls tl = []"
    proof (cases r2)
      case (Inl e)
      then have "snd (scrape_career soup name url dir w) = w2"
        using that second by (simp add: scrape_career_unfold[OF first])
      then show ?thesis using w2 by (intro exI[of _ "[]"]) simp
    next
      case (Inr html2)
      show ?thesis
      proof (cases "fs_error w2 ?path")
        case None
        then have "snd (scrape_career soup name url dir w)
            = emit (Write ?path (fieldnames # map csv_row (parse_titulados_table soup html2))) w2"
          using that second Inr by (simp add: scrape_career_unfold[OF first])
        then show ?thesis using w2
          by (intro exI[of _ "[Write ?path (fieldnames # map csv_row (parse_titulados_table soup html2))]"])
             (simp add: emit_def)
      next
        case (Some m)
        then have "snd (scrape_career soup name url dir w) = w2"
          using that second Inr by (simp add: scrape_career_unfold[OF first])
        then show ?thesis using w2 by (intro exI[of _ "[]"]) simp
      qed
    qed
    then obtain tl where "snd (scrape_career soup name url dir w)
            = w\<lparr>trace := trace w @ (Fetch url None # evs1 @ Fetch url ?iso # evs2) @ tl\<rparr>"
        and "fetch_calls tl = []" by blast
    then show ?thesis
      by (simp add: new_events_update fetch_calls_append evs1 evs2)
  qed
  have count: "fst (scrape_career soup name url dir w) = Inr (length (parse_titulados_table soup html2))"
    if "parse_titulados_table soup html = []" "contains (U ''titulados.asp'') url"
      "get_latest_html url ?iso w1 = (Inr html2, w2a)" "fs_error w ?path = None"
    for html2 w2a
  proof -
    from get_latest_html_effect[OF that(3)] have "fs_error w2a = fs_error w1" by auto
    then have "fs_error w2a ?path = None" using that(4) w1 by simp
    then show ?thesis using that by (simp add: scrape_career_unfold[OF first])
  qed
  have norows: "fetch_calls (new_events w (snd (scrape_career soup name url dir w))) = [Fetch url None]"
    if "parse_titulados_table soup html \<noteq> []"
  proof -
    have "\<exists>tl. snd (scrape_career soup name url dir w)
            = w\<lparr>trace := trace w @ (Fetch url None # evs1) @ tl\<rparr> \<and> fetch_calls tl = []"
    proof (cases "fs_error w1 ?path")
      case None
      then have "snd (scrape_career soup name url dir w)
            = emit (Write ?path (fieldnames # map csv_row (parse_titulados_table soup html))) w1"
        using that by (simp add: scrape_career_unfold[OF first])
      then show ?thesis using w1
        by (intro exI[of _ "[Write ?path (fieldnames # map csv_row (parse_titulados_table soup html))]"])
           (simp add: emit_def)
    next
      case (Some m)
      then have "snd (scrape_career soup name url dir w) = w1"
        using that by (simp add: scrape_career_unfold[OF first])
      then show ?thesis using w1 by (intro exI[of _ "[]"]) simp
    qed
    then obtain tl where "snd (scrape_career soup name url dir w)
            = w\<lparr>trace := trace w @ (Fetch url None # evs1) @ tl\<rparr>" and "fetch_calls tl = []"
      by blast
    then show ?thesis by (simp add: new_events_update fetch_calls_append evs1)
  qed
  show ?thesis
  proof (intro conjI impI allI)
    assume a: "parse_titulados_table soup html = [] \<and> contains (U ''titulados.asp'') url"
    show "fetch_calls (new_events w (snd (scrape_career soup name url dir w)))
              = [Fetch url None, Fetch url ?iso]"
      using a retry by blast
    fix html2 w2a
    assume b: "get_latest_html url ?iso w1 = (Inr html2, w2a) \<and> fs_error w ?path = None"
    show c: "fst (scrape_career soup name url dir w) = Inr (length (parse_titulados_table soup html2))"
      using a b count by blast
    assume "parse_titulados_table soup html2 = []"
    then show "fst (scrape_career soup name url dir w) = Inr 0" using c by simp
  next
    assume "parse_titulados_table soup html \<noteq> []"
    then show "fetch_calls (new_events w (snd (scrape_career soup name url dir w))) = [Fetch url None]"
      by (rule norows)
  qed
qed



lemma main_no_careers:
  assumes "fs_error w OUTPUT_DIR = None"
    and "get_latest_html PROGRAMAS_URL None
           (emit (Print FetchingProgramas) (emit (Mkdir OUTPUT_DIR) w)) = (Inr html, w1)"
    and "parse_programas soup up html = []"
  shows "main soup up completion w = (Inr (), emit (Print NoLicenciaturaLinks) w1)"
  using assms by (simp add: main_def)

section \<open>Harvest coordinator: no category found\<close>

text \<open>
  Claim C7, as the code has it. When the output directory can be created, the index
  page is fetched and \<open>parse_programas\<close> finds no category, \<open>main\<close> prints that no
  links were found and returns normally, without raising an error; the index page is
  the only page fetched and no file is written.
\<close>

theorem main_zero_categories:
  assumes "fs_error w OUTPUT_DIR = None"
    and "get_latest_html PROGRAMAS_URL None
           (emit (Print FetchingProgramas) (emit (Mkdir OUTPUT_DIR) w)) = (Inr html, w1)"
    and "parse_programas soup up html = []"
  shows "fst (main soup up completion w) = Inr ()
     \<and> fetch_calls (new_events w (snd (main soup up completion w))) = [Fetch PROGRAMAS_URL None]
     \<and> written (new_events w (snd (main soup up completion w))) = []
     \<and> last (trace (snd (main soup up completion w))) = Print NoLicenciaturaLinks"
proof -
  from get_latest_html_effect[OF assms(2)]
  obtain evs where w1: "w1 = w\<lparr>trace := trace w @
        (Mkdir OUTPUT_DIR # Print FetchingProgramas # Fetch PROGRAMAS_URL None # evs)\<rparr>"
    and evs: "fetch_calls evs = []" "written evs = []"
    by (auto simp: emit_def)
  have m: "snd (main soup up completion w) = w\<lparr>trace := trace w @
        (Mkdir OUTPUT_DIR # Print FetchingProgramas # Fetch PROGRAMAS_URL None # evs)
        @ [Print NoLicenciaturaLinks]\<rparr>"
    by (simp add: main_no_careers[OF assms] w1 emit_def)
  show ?thesis
    by (simp add: m new_events_update fetch_calls_append written_append evs)
       (simp add: main_no_careers[OF assms])
qed

section \<open>Harvest coordinator: the summary\<close>


section \<open>The example environment at work\<close>

lemma U_append: "U a @ U b = U (a @ b)"
  by (simp add: U_def)

lemma U_Nil_iff: "U s = [] \<longleftrightarrow> s = []" "[] = U s \<longleftrightarrow> s = []"
  by (auto simp: U_def)

lemma example_world_sel:
  "network (example_world\<lparr>trace := t\<rparr>) = example_network"
  "fs_error (example_world\<lparr>trace := t\<rparr>) = (\<lambda>path. None)"
  "trace (example_world\<lparr>trace := t\<rparr>) = t"
  "network example_world = example_network"
  "fs_error example_world = (\<lambda>path. None)"
  "trace example_world = []"
  by (simp_all add: example_world_def)

lemma example_world_id: "example_world = example_world\<lparr>trace := []\<rparr>"
  by (simp add: example_world_def)

lemma blank_world_sel:
  "network (blank_world\<lparr>trace := t\<rparr>) = (\<lambda>url k. Responded (page ''no such page''))"
  "fs_error (blank_world\<lparr>trace := t\<rparr>) = (\<lambda>path. None)"
  "trace (blank_world\<lparr>trace := t\<rparr>) = t"
  "network blank_world = (\<lambda>url k. Responded (page ''no such page''))"
  "fs_error blank_world = (\<lambda>path. None)"
  "trace blank_world = []"
  by (simp_all add: blank_world_def)


lemma example_network_answers:
  "example_network (U ''https://escolar1.rhon.itam.mx/titulacion/programas.asp'') 0
     = Failed (U ''connection reset'')"
  "example_network (U ''https://escolar1.rhon.itam.mx/titulacion/programas.asp'') (Suc k)
     = Responded (page ''index'')"
  "example_network (U ''https://escolar1.rhon.itam.mx/titulacion/titulados.asp?prog=1'') k
     = Responded legacy_page"
  "example_network (U ''https://escolar1.rhon.itam.mx/titulacion/titulados.asp?prog=2'') k
     = Failed (U ''timeout'')"
  "example_network (U ''http://escolar1.rhon.itam.mx/titulacion/titulados.asp?prog=3'') k
     = Responded (page ''no such page'')"
  "example_network (U ''https://escolar1.rhon.itam.mx/titulacion/titulados.asp?prog=4'') k
     = Responded (page ''listing'')"
  by (simp_all add: example_network_def U_eq_iff)

lemma example_texts:
  "response_text (page name) fe = U name"
  "response_text legacy_page None = U ''garbled''"
  "response_text legacy_page (Some (U ''iso-8859-1'')) = U ''listing''"
  by (simp_all add: response_text_def page_def legacy_page_def U_eq_iff U_Nil_iff)

lemma example_fetches:
  "get_latest_html (U ''https://escolar1.rhon.itam.mx/titulacion/titulados.asp?prog=1'') fe
       (example_world\<lparr>trace := t\<rparr>)
     = (Inr (response_text legacy_page fe),
        example_world\<lparr>trace := t @
          [Fetch (U ''https://escolar1.rhon.itam.mx/titulacion/titulados.asp?prog=1'') fe,
           Get (U ''https://escolar1.rhon.itam.mx/titulacion/titulados.asp?prog=1'')]\<rparr>)"
  "get_latest_html (U ''https://escolar1.rhon.itam.mx/titulacion/titulados.asp?prog=2'') fe
       (example_world\<lparr>trace := t\<rparr>)
     = (Inl (RuntimeError
              (U ''Failed to fetch https://escolar1.rhon.itam.mx/titulacion/titulados.asp?prog=2: timeout'')
              (RequestException (U ''timeout''))),
        example_world\<lparr>trace := t @
          [Fetch (U ''https://escolar1.rhon.itam.mx/titulacion/titulados.asp?prog=2'') fe,
           Get (U ''https://escolar1.rhon.itam.mx/titulacion/titulados.asp?prog=2''), Sleep 2,
           Get (U ''https://escolar1.rhon.itam.mx/titulacion/titulados.asp?prog=2''), Sleep 2,
           Get (U ''https://escolar1.rhon.itam.mx/titulacion/titulados.asp?prog=2'')]\<rparr>)"
  "get_latest_html (U ''http://escolar1.rhon.itam.mx/titulacion/titulados.asp?prog=3'') fe
       (example_world\<lparr>trace := t\<rparr>)
     = (Inr (U ''no such page''),
        example_world\<lparr>trace := t @
          [Fetch (U ''http://escolar1.rhon.itam.mx/titulacion/titulados.asp?prog=3'') fe,
           Get (U ''http://escolar1.rhon.itam.mx/titulacion/titulados.asp?prog=3'')]\<rparr>)"
  "get_latest_html (U ''https://escolar1.rhon.itam.mx/titulacion/titulados.asp?prog=4'') fe
       (example_world\<lparr>trace := t\<rparr>)
     = (Inr (U ''listing''),
        example_world\<lparr>trace := t @
          [Fetch (U ''https://escolar1.rhon.itam.mx/titulacion/titulados.asp?prog=4'') fe,
           Get (U ''https://escolar1.rhon.itam.mx/titulacion/titulados.asp?prog=4'')]\<rparr>)"
  by (simp_all add: get_latest_html_unfold example_world_sel example_network_answers
      example_texts U_append)


lemma example_parses:
  "parse_titulados_table example_soup (U ''garbled'') = []"
  "parse_titulados_table example_soup (U ''no such page'') = []"
  "parse_titulados_table example_soup (U ''listing'') =
     [(U ''GARCIA LOPEZ MARIA JOSE'', U ''2020''), (U ''DIAZ JUAN'', [])]"
  "parse_programas example_soup ascii_upper (U ''no such page'') = []"
proof -
  have e: "example_soup (U ''garbled'') = empty_doc" "example_soup (U ''no such page'') = empty_doc"
    by (simp_all add: example_soup_def U_eq_iff)
  have t: "find_all [U ''table''] empty_doc = []" by (simp add: empty_doc_def find_all_def)
  show "parse_titulados_table example_soup (U ''garbled'') = []"
    "parse_titulados_table example_soup (U ''no such page'') = []"
    "parse_programas example_soup ascii_upper (U ''no such page'') = []"
    by (simp_all add: parse_titulados_table_def parse_programas_def e t)
  show "parse_titulados_table example_soup (U ''listing'') =
     [(U ''GARCIA LOPEZ MARIA JOSE'', U ''2020''), (U ''DIAZ JUAN'', [])]"
    by (simp add: parse_titulados_table_def example_soup_pages listing_tables
        titulados_loop_skip titulados_loop_hit listing_headers listing_markers
        first_data_table_rows del: titulados_loop.simps)
qed


lemma example_listing_urls:
  "contains (U ''titulados.asp'') (U ''https://escolar1.rhon.itam.mx/titulacion/titulados.asp?prog=1'')"
  "contains (U ''titulados.asp'') (U ''http://escolar1.rhon.itam.mx/titulacion/titulados.asp?prog=3'')"
  "contains (U ''titulados.asp'') (U ''https://escolar1.rhon.itam.mx/titulacion/titulados.asp?prog=4'')"
  by (simp_all add: U_def)




theorem scrape_career_retry_witness:
  "get_latest_html (U ''http://escolar1.rhon.itam.mx/titulacion/titulados.asp?prog=3'') None
       example_world
     = (Inr (U ''no such page''),
        example_world\<lparr>trace :=
          [Fetch (U ''http://escolar1.rhon.itam.mx/titulacion/titulados.asp?prog=3'') None,
           Get (U ''http://escolar1.rhon.itam.mx/titulacion/titulados.asp?prog=3'')]\<rparr>)
   \<and> parse_titulados_table example_soup (U ''no such page'') = []
   \<and> contains (U ''titulados.asp'')
        (U ''http://escolar1.rhon.itam.mx/titulacion/titulados.asp?prog=3'')
   \<and> fetch_calls (new_events example_world
        (snd (scrape_career example_soup (U ''ECONOMIA'')
               (U ''http://escolar1.rhon.itam.mx/titulacion/titulados.asp?prog=3'') (U ''output'')
               example_world)))
       = [Fetch (U ''http://escolar1.rhon.itam.mx/titulacion/titulados.asp?prog=3'') None,
          Fetch (U ''http://escolar1.rhon.itam.mx/titulacion/titulados.asp?prog=3'')
            (Some (U ''iso-8859-1''))]
   \<and> fst (scrape_career example_soup (U ''ECONOMIA'')
               (U ''http://escolar1.rhon.itam.mx/titulacion/titulados.asp?prog=3'') (U ''output'')
               example_world) = Inr 0
   \<and> get_latest_html (U ''https://escolar1.rhon.itam.mx/titulacion/titulados.asp?prog=4'') None
       example_world
     = (Inr (U ''listing''),
        example_world\<lparr>trace :=
          [Fetch (U ''https://escolar1.rhon.itam.mx/titulacion/titulados.asp?prog=4'') None,
           Get (U ''https://escolar1.rhon.itam.mx/titulacion/titulados.asp?prog=4'')]\<rparr>)
   \<and> parse_titulados_table example_soup (U ''listing'') \<noteq> []
   \<and> fetch_calls (new_events example_world
        (snd (scrape_career example_soup (U ''MATEMATICAS'')
               (U ''https://escolar1.rhon.itam.mx/titulacion/titulados.asp?prog=4'') (U ''output'')
               example_world)))
       = [Fetch (U ''https://escolar1.rhon.itam.mx/titulacion/titulados.asp?prog=4'') None]"
proof -
  let ?u3 = "U ''http://escolar1.rhon.itam.mx/titulacion/titulados.asp?prog=3''"
  let ?u4 = "U ''https://escolar1.rhon.itam.mx/titulacion/titulados.asp?prog=4''"
  let ?w1 = "example_world\<lparr>trace := [Fetch ?u3 None, Get ?u3]\<rparr>"
  have f3: "get_latest_html ?u3 None example_world = (Inr (U ''no such page''), ?w1)"
    using example_fetches(3)[of None "[]"] by (simp add: example_world_id[symmetric])
  have f3b: "get_latest_html ?u3 (Some (U ''iso-8859-1'')) ?w1
      = (Inr (U ''no such page''),
         example_world\<lparr>trace := [Fetch ?u3 None, Get ?u3] @
           [Fetch ?u3 (Some (U ''iso-8859-1'')), Get ?u3]\<rparr>)"
    by (rule example_fetches(3))
  have f4: "get_latest_html ?u4 None example_world
      = (Inr (U ''listing''), example_world\<lparr>trace := [Fetch ?u4 None, Get ?u4]\<rparr>)"
    using example_fetches(4)[of None "[]"] by (simp add: example_world_id[symmetric])
  have fs: "fs_error example_world (U ''output'' @ U ''/'' @ sanitize_filename (U ''ECONOMIA'') @ U ''.csv'') = None"
    by (simp add: example_world_sel)
  note T3 = scrape_career_retry[OF f3, of example_soup "U ''ECONOMIA''" "U ''output''"]
  note T4 = scrape_career_retry[OF f4, of example_soup "U ''MATEMATICAS''" "U ''output''"]
  have rows: "parse_titulados_table example_soup (U ''listing'') \<noteq> []"
    by (simp add: example_parses)
  from T3 have A: "fetch_calls (new_events example_world
        (snd (scrape_career example_soup (U ''ECONOMIA'') ?u3 (U ''output'') example_world)))
       = [Fetch ?u3 None, Fetch ?u3 (Some (U ''iso-8859-1''))]"
    and B: "fst (scrape_career example_soup (U ''ECONOMIA'') ?u3 (U ''output'') example_world) = Inr 0"
    using example_parses(2) example_listing_urls(2) f3b fs by blast+
  from T4 rows have C: "fetch_calls (new_events example_world
        (snd (scrape_career example_soup (U ''MATEMATICAS'') ?u4 (U ''output'') example_world)))
       = [Fetch ?u4 None]" by blast
  show ?thesis using f3 f4 A B C rows example_parses(2) example_listing_urls(2) by simp
qed

lemma blank_index_fetch:
  "get_latest_html PROGRAMAS_URL None
       (emit (Print FetchingProgramas) (emit (Mkdir OUTPUT_DIR) blank_world))
     = (Inr (U ''no such page''),
        blank_world\<lparr>trace := [Mkdir OUTPUT_DIR, Print FetchingProgramas,
          Fetch PROGRAMAS_URL None, Get PROGRAMAS_URL]\<rparr>)"
  by (simp add: get_latest_html_unfold blank_world_sel example_texts emit_as_update)

theorem main_zero_categories_counterexample:
  "parse_programas example_soup ascii_upper (U ''no such page'') = []
   \<and> fst (main example_soup ascii_upper id blank_world) = Inr ()
   \<and> trace (snd (main example_soup ascii_upper id blank_world))
       = [Mkdir OUTPUT_DIR, Print FetchingProgramas, Fetch PROGRAMAS_URL None,
          Get PROGRAMAS_URL, Print NoLicenciaturaLinks]"
  by (simp add: main_def blank_index_fetch example_parses blank_world_sel emit_update)

theorem main_zero_categories_witness:
  "fs_error blank_world OUTPUT_DIR = None
   \<and> get_latest_html PROGRAMAS_URL None
       (emit (Print FetchingProgramas) (emit (Mkdir OUTPUT_DIR) blank_world))
     = (Inr (U ''no such page''),
        blank_world\<lparr>trace := [Mkdir OUTPUT_DIR, Print FetchingProgramas,
          Fetch PROGRAMAS_URL None, Get PROGRAMAS_URL]\<rparr>)
   \<and> parse_programas example_soup ascii_upper (U ''no such page'') = []
   \<and> fst (main example_soup ascii_upper id blank_world) = Inr ()
   \<and> fetch_calls (new_events blank_world (snd (main example_soup ascii_upper id blank_world)))
       = [Fetch PROGRAMAS_URL None]
   \<and> written (new_events blank_world (snd (main example_soup ascii_upper id blank_world))) = []
   \<and> last (trace (snd (main example_soup ascii_upper id blank_world)))
       = Print NoLicenciaturaLinks"
proof -
  have fs: "fs_error blank_world OUTPUT_DIR = None" by (simp add: blank_world_sel)
  from main_zero_categories[OF fs blank_index_fetch example_parses(4), of id]
  show ?thesis using fs blank_index_fetch example_parses(4) by simp
qed



end
